theory Spec2Isabelle
  imports Main "HOL-Library.Sublist"
begin

section \<open>SQL values\<close>

text \<open>
  A nullable column is an \<open>option\<close>: \<open>None\<close> is SQL NULL. \<open>COALESCE(v, d)\<close> is
  \<open>coalesce v d\<close>; \<open>GREATEST(a, b)\<close> on two non-null integers is \<open>max a b\<close>; and
  \<open>a IS DISTINCT FROM b\<close> is inequality of the two options (NULL is not distinct from
  NULL, and distinct from every value).
\<close>

definition coalesce :: "'a option \<Rightarrow> 'a \<Rightarrow> 'a" where
  "coalesce v d = (case v of None \<Rightarrow> d | Some x \<Rightarrow> x)"

definition is_distinct_from :: "'a option \<Rightarrow> 'a option \<Rightarrow> bool" where
  "is_distinct_from a b = (a \<noteq> b)"

section \<open>The catalog table \<open>menu_items\<close> and its availability trigger\<close>

text \<open>
  The columns of \<open>menu_items\<close> that the inventory code reads and writes, and \<open>name\<close> as
  one of the columns it never looks at. \<open>id\<close> is the text form of the row's uuid.
\<close>

record menu_item =
  m_id :: string
  m_name :: string
  m_available :: bool
  m_track_inventory :: "bool option"
  m_stock_quantity :: "int option"
  m_low_stock_threshold :: "int option"

text \<open>In a row trigger, every column of \<open>OLD\<close> is NULL on INSERT.\<close>

definition old_col :: "(menu_item \<Rightarrow> 'a option) \<Rightarrow> menu_item option \<Rightarrow> 'a option" where
  "old_col col OLD = (case OLD of None \<Rightarrow> None | Some r \<Rightarrow> col r)"

text \<open>
  \<open>sync_menu_item_availability()\<close> of
  \<open>supabase/migrations/20250103000000_fix_availability_trigger.sql\<close>, the
  \<open>BEFORE INSERT OR UPDATE ... FOR EACH ROW\<close> trigger of \<open>menu_items\<close>. The two clamping
  assignments come first, so the comparison with \<open>OLD\<close> sees the clamped values.
\<close>

definition sync_menu_item_availability :: "menu_item option \<Rightarrow> menu_item \<Rightarrow> menu_item" where
  "sync_menu_item_availability OLD NEW =
     (if coalesce (m_track_inventory NEW) False then
        (let q = max (coalesce (m_stock_quantity NEW) 0) 0;
             t = max (coalesce (m_low_stock_threshold NEW) 0) 0;
             NEW1 = NEW\<lparr>m_stock_quantity := Some q, m_low_stock_threshold := Some t\<rparr>
         in if is_distinct_from (old_col m_stock_quantity OLD) (Some q) \<or>
               is_distinct_from (old_col m_low_stock_threshold OLD) (Some t) \<or>
               is_distinct_from (old_col m_track_inventory OLD) (m_track_inventory NEW)
            then (if q \<le> t then NEW1\<lparr>m_available := False\<rparr>
                  else NEW1\<lparr>m_available := True\<rparr>)
            else NEW1)
      else NEW)"

text \<open>
  \<open>UPDATE menu_items SET ... WHERE ...\<close>: every row the condition selects is replaced by
  what the trigger returns for the row with the assignments applied; the others stay.
\<close>

definition update_menu_items ::
  "(menu_item \<Rightarrow> bool) \<Rightarrow> (menu_item \<Rightarrow> menu_item) \<Rightarrow> menu_item list \<Rightarrow> menu_item list" where
  "update_menu_items cond assign tbl =
     map (\<lambda>r. if cond r then sync_menu_item_availability (Some r) (assign r) else r) tbl"

section \<open>Stock decrement\<close>

text \<open>
  The statement of \<open>decrement_menu_item_stock(items jsonb)\<close>, run for one entry of
  \<open>items\<close> (its \<open>id\<close> and the quantity \<open>qty\<close> read from it):
  \<^verbatim>\<open>
  UPDATE menu_items
  SET stock_quantity = GREATEST(COALESCE(stock_quantity, 0) - qty, 0)
  WHERE track_inventory = true AND id::text = entry->>'id';
  \<close>
  A NULL \<open>track_inventory\<close> does not satisfy \<open>track_inventory = true\<close>.
\<close>

definition tracked :: "menu_item \<Rightarrow> bool" where
  "tracked r = (m_track_inventory r = Some True)"

definition decrement_entry :: "string \<times> int \<Rightarrow> menu_item list \<Rightarrow> menu_item list" where
  "decrement_entry entry tbl =
     update_menu_items
       (\<lambda>r. tracked r \<and> m_id r = fst entry)
       (\<lambda>r. r\<lparr>m_stock_quantity := Some (max (coalesce (m_stock_quantity r) 0 - snd entry) 0)\<rparr>)
       tbl"

text \<open>The function is a batch: it runs the statement for the entries of \<open>items\<close> in turn.\<close>

definition decrement_menu_item_stock :: "(string \<times> int) list \<Rightarrow> menu_item list \<Rightarrow> menu_item list" where
  "decrement_menu_item_stock items tbl = foldl (\<lambda>t entry. decrement_entry entry t) tbl items"

text \<open>A stock quantity that is not negative; NULL is read as 0 by every user of the column.\<close>

definition stock_nonneg :: "menu_item \<Rightarrow> bool" where
  "stock_nonneg r = (0 \<le> coalesce (m_stock_quantity r) 0)"

section \<open>The tables \<open>orders\<close> and \<open>order_items\<close>\<close>

text \<open>
  Amounts (\<open>numeric(12,2)\<close> columns, prices of the cart) are whole numbers of
  centavos; the rounding of a price with more decimals and the overflow of the column
  are not modelled. A timestamp is a whole number of microseconds, the resolution of
  \<open>timestamptz\<close>. \<open>service_type\<close> is the checkout's union type, which is also the
  column's CHECK constraint. \<open>contact_number\<close> is \<open>NOT NULL\<close> in the table, but the
  rate limiting trigger runs before that constraint and tests \<open>NEW.contact_number\<close>
  for NULL, so the row type keeps it nullable.
\<close>

datatype service_type = DineIn | Pickup | Delivery

record order_row =
  o_id :: string
  o_customer_name :: string
  o_contact_number :: "string option"
  o_service_type :: service_type
  o_address :: "string option"
  o_pickup_time :: "string option"
  o_party_size :: "int option"
  o_dine_in_time :: "string option"
  o_payment_method :: string
  o_reference_number :: "string option"
  o_notes :: "string option"
  o_total :: int
  o_status :: string
  o_ip_address :: "string option"
  o_receipt_url :: "string option"
  o_created_at :: int

record variation =
  v_id :: string
  v_name :: string
  v_price :: int

record add_on =
  a_id :: string
  a_name :: string
  a_price :: int
  a_quantity :: "int option"

record add_on_row =
  ar_id :: string
  ar_name :: string
  ar_price :: int
  ar_quantity :: int

text \<open>
  A row of \<open>order_items\<close>, without its own generated \<open>id\<close> and \<open>created_at\<close>, which
  nothing reads.
\<close>

record order_item_row =
  oi_order_id :: string
  oi_item_id :: string
  oi_name :: string
  oi_variation :: "variation option"
  oi_add_ons :: "add_on_row list option"
  oi_unit_price :: int
  oi_quantity :: int
  oi_subtotal :: int

record db =
  orders :: "order_row list"
  order_items :: "order_item_row list"
  menu_items :: "menu_item list"

section \<open>Rate limiting trigger of \<open>orders\<close>\<close>

definition interval_60_seconds :: int where
  "interval_60_seconds = 60 * 1000000"

text \<open>\<open>a = b\<close> in SQL is true only when both sides are non-null and equal.\<close>

definition sql_eq :: "'a option \<Rightarrow> 'a option \<Rightarrow> bool" where
  "sql_eq a b = (case a of None \<Rightarrow> False | Some x \<Rightarrow> b = Some x)"

text \<open>\<open>trim(text)\<close> removes the spaces at both ends.\<close>

definition trim :: "string \<Rightarrow> string" where
  "trim s = rev (dropWhile (\<lambda>c. c = CHR '' '') (rev (dropWhile (\<lambda>c. c = CHR '' '') s)))"

text \<open>
  The check of \<open>prevent_spam_orders_per_ip()\<close>:
  \<^verbatim>\<open>
  SELECT COUNT(*) INTO recent_count FROM orders
  WHERE ip_address = NEW.ip_address
    AND created_at >= (now() - interval '60 seconds');
  \<close>
\<close>

definition recent_count :: "int \<Rightarrow> order_row list \<Rightarrow> order_row \<Rightarrow> nat" where
  "recent_count now tbl NEW =
     length (filter (\<lambda>row. sql_eq (o_ip_address row) (o_ip_address NEW) \<and>
                            o_created_at row \<ge> now - interval_60_seconds) tbl)"

text \<open>
  The check the hardened function adds:
  \<^verbatim>\<open>
  IF NEW.contact_number IS NOT NULL AND length(trim(NEW.contact_number)) > 0 THEN
    SELECT COUNT(*) INTO recent_phone_count FROM orders
    WHERE contact_number = NEW.contact_number
      AND created_at >= (now() - interval '60 seconds');
  END IF;
  \<close>
  The count stays at its initial 0 when the condition fails.
\<close>

definition has_text :: "string option \<Rightarrow> bool" where
  "has_text v = (case v of None \<Rightarrow> False | Some s \<Rightarrow> length (trim s) > 0)"

definition recent_phone_count :: "int \<Rightarrow> order_row list \<Rightarrow> order_row \<Rightarrow> nat" where
  "recent_phone_count now tbl NEW =
     (if has_text (o_contact_number NEW) then
        length (filter (\<lambda>row. sql_eq (o_contact_number row) (o_contact_number NEW) \<and>
                               o_created_at row \<ge> now - interval_60_seconds) tbl)
      else 0)"

datatype trigger_exception = MissingIdentifier | RateLimit

text \<open>
  Modelled from the spec: the excerpts of the hardened \<open>prevent_spam_orders_per_ip()\<close>
  show its two counts and the \<open>RAISE\<close> on \<open>recent_count > 0\<close>; the \<open>RAISE\<close> for an order
  with neither an address nor a contact number, and the one on
  \<open>recent_phone_count > 0\<close>, are missing. They follow the rules the repository documents
  for the function (one order per IP address and one per contact number in 60 seconds,
  at least one identifier required). The trigger returns \<open>NEW\<close> as it is, so the model
  returns only the exception, if any.
\<close>

definition prevent_spam_orders_per_ip :: "int \<Rightarrow> order_row list \<Rightarrow> order_row \<Rightarrow> trigger_exception option" where
  "prevent_spam_orders_per_ip now tbl NEW =
     (if \<not> has_text (o_ip_address NEW) \<and> \<not> has_text (o_contact_number NEW) then Some MissingIdentifier
      else if recent_count now tbl NEW > 0 then Some RateLimit
      else if recent_phone_count now tbl NEW > 0 then Some RateLimit
      else None)"

section \<open>Order creation\<close>

record cart_item =
  ci_id :: string
  ci_menuItemId :: "string option"
  ci_name :: string
  ci_totalPrice :: int
  ci_quantity :: int
  ci_selectedVariation :: "variation option"
  ci_selectedAddOns :: "add_on list option"

record order_payload =
  p_customerName :: string
  p_contactNumber :: string
  p_serviceType :: service_type
  p_address :: "string option"
  p_pickupTime :: "string option"
  p_partySize :: "int option"
  p_dineInTime :: "string option"
  p_paymentMethod :: string
  p_referenceNumber :: "string option"
  p_notes :: "string option"
  p_total :: int
  p_items :: "cart_item list"
  p_receiptUrl :: "string option"

text \<open>
  What one call meets outside the tables: the \<open>now()\<close> of its inserts, the uuid that
  \<open>gen_random_uuid()\<close> draws for the order, and for each of the three writes whether the
  storage layer fails it for a reason of its own (network, outage).
\<close>

record call_env =
  e_now :: int
  e_new_id :: string
  e_orders_fault :: bool
  e_items_fault :: bool
  e_decrement_fault :: bool

text \<open>
  The errors of order creation by their documented messages: \<open>Insufficient stock for
  [item name]\<close> carries the name; a rate limit and a missing identifier are reported by
  the same message (\<open>Too many orders: Please wait 1 minute before placing another
  order.\<close>); any other database error is a persistence error.
\<close>

datatype order_error = InsufficientStock string | RateLimited | PersistenceError

datatype warning = StockDecrementWarning

record outcome =
  out_result :: "order_error + order_row"
  out_warnings :: "warning list"
  out_db :: db

text \<open>\<open>ci.menuItemId || ci.id\<close>: an absent or empty \<open>menuItemId\<close> is falsy.\<close>

definition item_id_of :: "cart_item \<Rightarrow> string" where
  "item_id_of ci = (case ci_menuItemId ci of None \<Rightarrow> ci_id ci
                    | Some m \<Rightarrow> if m = [] then ci_id ci else m)"

text \<open>
  Modelled from the spec: the excerpt of \<open>createOrder\<close> uses \<open>stockAdjustments\<close>,
  \<open>stockedItemIds\<close>, \<open>inventoryPayload\<close> and \<open>offending\<close> without the lines that
  compute them. \<open>stockAdjustments\<close> is the cart's quantities summed by catalog item
  (an object, so the keys keep their order of first insertion); \<open>stockedItemIds\<close> is its
  keys, \<open>inventoryPayload\<close> its entries, and \<open>offending\<close> the first cart item of the
  insufficient row.
\<close>

fun add_adjustment :: "string \<Rightarrow> int \<Rightarrow> (string \<times> int) list \<Rightarrow> (string \<times> int) list" where
  "add_adjustment k n [] = [(k, n)]"
| "add_adjustment k n ((k', v) # acc) =
     (if k' = k then (k', v + n) # acc else (k', v) # add_adjustment k n acc)"

definition stock_adjustments :: "cart_item list \<Rightarrow> (string \<times> int) list" where
  "stock_adjustments items = foldl (\<lambda>acc ci. add_adjustment (item_id_of ci) (ci_quantity ci) acc) [] items"

definition offending_name :: "order_payload \<Rightarrow> menu_item \<Rightarrow> string" where
  "offending_name payload row =
     (case find (\<lambda>ci. item_id_of ci = m_id row) (p_items payload) of
        None \<Rightarrow> ''undefined'' | Some ci \<Rightarrow> ci_name ci)"

text \<open>
  \<open>(row.stock_quantity ?? 0) < stockAdjustments[row.id]\<close>; a comparison with a missing
  entry (\<open>undefined\<close>) is false.
\<close>

definition is_insufficient :: "(string \<times> int) list \<Rightarrow> menu_item \<Rightarrow> bool" where
  "is_insufficient stockAdjustments row =
     (coalesce (m_track_inventory row) False \<and>
      (case map_of stockAdjustments (m_id row) of None \<Rightarrow> False
       | Some requested \<Rightarrow> coalesce (m_stock_quantity row) 0 < requested))"

text \<open>
  Phase 1: the snapshot \<open>select ... .in('id', stockedItemIds)\<close> and
  \<open>inventorySnapshot?.find(...)\<close>, in the order of the table.
\<close>

definition insufficientItem :: "db \<Rightarrow> (string \<times> int) list \<Rightarrow> menu_item option" where
  "insufficientItem d stockAdjustments =
     (let stockedItemIds = map fst stockAdjustments;
          inventorySnapshot = filter (\<lambda>row. m_id row \<in> set stockedItemIds) (menu_items d)
      in find (is_insufficient stockAdjustments) inventorySnapshot)"

text \<open>
  Phase 2: the row \<open>.from('orders').insert({...})\<close> sends, completed by the column
  defaults (\<open>id\<close>, \<open>status\<close>, \<open>created_at\<close>). The conversion of \<open>dineInTime\<close> to ISO text
  is taken as the identity on a valid time; an empty text is falsy.
\<close>

definition new_order :: "call_env \<Rightarrow> order_payload \<Rightarrow> string option \<Rightarrow> order_row" where
  "new_order env payload clientIp =
     \<lparr>o_id = e_new_id env,
      o_customer_name = p_customerName payload,
      o_contact_number = Some (p_contactNumber payload),
      o_service_type = p_serviceType payload,
      o_address = p_address payload,
      o_pickup_time = p_pickupTime payload,
      o_party_size = p_partySize payload,
      o_dine_in_time = (case p_dineInTime payload of None \<Rightarrow> None
                        | Some t \<Rightarrow> if t = [] then None else Some t),
      o_payment_method = p_paymentMethod payload,
      o_reference_number = p_referenceNumber payload,
      o_notes = p_notes payload,
      o_total = p_total payload,
      o_status = ''pending'',
      o_ip_address = clientIp,
      o_receipt_url = p_receiptUrl payload,
      o_created_at = e_now env\<rparr>"

text \<open>
  The insert into \<open>orders\<close> is one request: it fails as a whole on a storage fault, on
  an exception of the rate limiting trigger (reported as the rate limit error), or on a
  primary key that exists; otherwise the row is added.
\<close>

definition insert_orders :: "call_env \<Rightarrow> order_row \<Rightarrow> db \<Rightarrow> order_error + (order_row \<times> db)" where
  "insert_orders env NEW d =
     (if e_orders_fault env then Inl PersistenceError
      else case prevent_spam_orders_per_ip (e_now env) (orders d) NEW of
        Some _ \<Rightarrow> Inl RateLimited
      | None \<Rightarrow>
          if o_id NEW \<in> set (map o_id (orders d)) then Inl PersistenceError
          else Inr (NEW, d\<lparr>orders := orders d @ [NEW]\<rparr>))"

text \<open>Phase 3: the rows \<open>payload.items.map(...)\<close> builds for the order.\<close>

definition add_on_row_of :: "add_on \<Rightarrow> add_on_row" where
  "add_on_row_of a =
     \<lparr>ar_id = a_id a, ar_name = a_name a, ar_price = a_price a,
      ar_quantity = coalesce (a_quantity a) 1\<rparr>"

definition order_item_of :: "order_row \<Rightarrow> cart_item \<Rightarrow> order_item_row" where
  "order_item_of order ci =
     \<lparr>oi_order_id = o_id order,
      oi_item_id = item_id_of ci,
      oi_name = ci_name ci,
      oi_variation = ci_selectedVariation ci,
      oi_add_ons = (case ci_selectedAddOns ci of None \<Rightarrow> None
                    | Some as \<Rightarrow> if length as > 0 then Some (map add_on_row_of as) else None),
      oi_unit_price = ci_totalPrice ci,
      oi_quantity = ci_quantity ci,
      oi_subtotal = ci_totalPrice ci * ci_quantity ci\<rparr>"

text \<open>
  The insert into \<open>order_items\<close> is a second request with all the rows in one
  statement: it adds all of them or, on a storage fault, a row that breaks
  \<open>CHECK (quantity > 0)\<close> or a missing order, none.
\<close>

definition insert_order_items :: "call_env \<Rightarrow> order_item_row list \<Rightarrow> db \<Rightarrow> order_error + db" where
  "insert_order_items env rows d =
     (if e_items_fault env then Inl PersistenceError
      else if \<exists>r \<in> set rows. \<not> oi_quantity r > 0 then Inl PersistenceError
      else if \<exists>r \<in> set rows. oi_order_id r \<notin> set (map o_id (orders d)) then Inl PersistenceError
      else Inr (d\<lparr>order_items := order_items d @ rows\<rparr>))"

text \<open>
  \<open>createOrder\<close> of \<open>src/hooks/useOrders.ts\<close>, by its four phases. Each phase is a
  request of its own to the database; nothing undoes an earlier one.

  Modelled from the spec: the excerpt leaves out what the hook does with the error of
  each request. A failed insert ends the call with its error (the repository documents
  the messages shown for them); a failed decrement is recorded as a warning and the
  order is returned.
\<close>

definition createOrder :: "db \<Rightarrow> call_env \<Rightarrow> order_payload \<Rightarrow> string option \<Rightarrow> outcome" where
  "createOrder d env payload clientIp =
     (let stockAdjustments = stock_adjustments (p_items payload) in
      case insufficientItem d stockAdjustments of
        Some row \<Rightarrow>
          \<lparr>out_result = Inl (InsufficientStock (offending_name payload row)),
           out_warnings = [], out_db = d\<rparr>
      | None \<Rightarrow>
          (case insert_orders env (new_order env payload clientIp) d of
             Inl e \<Rightarrow> \<lparr>out_result = Inl e, out_warnings = [], out_db = d\<rparr>
           | Inr (order, d1) \<Rightarrow>
               (case insert_order_items env (map (order_item_of order) (p_items payload)) d1 of
                  Inl e \<Rightarrow> \<lparr>out_result = Inl e, out_warnings = [], out_db = d1\<rparr>
                | Inr d2 \<Rightarrow>
                    if e_decrement_fault env then
                      \<lparr>out_result = Inr order, out_warnings = [StockDecrementWarning],
                       out_db = d2\<rparr>
                    else
                      \<lparr>out_result = Inr order, out_warnings = [],
                       out_db = d2\<lparr>menu_items :=
                         decrement_menu_item_stock stockAdjustments (menu_items d2)\<rparr>\<rparr>)))"

section \<open>Order search\<close>

text \<open>
  \<open>LIKE\<close>: \<open>%\<close> stands for any text, \<open>_\<close> for any one character, and a backslash
  makes the character after it literal. PostgreSQL raises an error on a pattern that
  ends in a lone backslash; the function is false there, and no pattern of the search
  below ends so.
\<close>

fun like_match :: "string \<Rightarrow> string \<Rightarrow> bool" where
  "like_match [] s = (s = [])"
| "like_match (p # ps) [] = (p = CHR ''%'' \<and> like_match ps [])"
| "like_match (p # ps) (c # s) =
     (if p = CHR ''%'' then like_match ps (c # s) \<or> like_match (p # ps) s
      else if p = CHR ''_'' then like_match ps s
      else if p = CHR 0x5C then
        (case ps of [] \<Rightarrow> False | x # ps' \<Rightarrow> x = c \<and> like_match ps' s)
      else p = c \<and> like_match ps s)"

text \<open>\<open>ILIKE\<close> compares the lower-case forms; the letters are those of ASCII.\<close>

definition lower_char :: "char \<Rightarrow> char" where
  "lower_char c =
     (let n = (of_char c :: nat) in if 65 \<le> n \<and> n \<le> 90 then char_of (n + 32) else c)"

definition ilike :: "string \<Rightarrow> string \<Rightarrow> bool" where
  "ilike s pattern = like_match (map lower_char pattern) (map lower_char s)"

text \<open>
  \<open>ORDER BY o.created_at DESC LIMIT 1\<close>: a row with the greatest \<open>created_at\<close>. SQL does
  not say which one of several rows with the same time; the model takes the first of
  them in the table.
\<close>

fun most_recent :: "order_row list \<Rightarrow> order_row option" where
  "most_recent [] = None"
| "most_recent (x # xs) =
     (case most_recent xs of None \<Rightarrow> Some x
      | Some y \<Rightarrow> if o_created_at y > o_created_at x then Some y else Some x)"

text \<open>
  \<open>search_order_by_id(search_term text)\<close> of
  \<open>supabase/migrations/20250116000000_add_order_search_function.sql\<close>:
  \<^verbatim>\<open>
  WHERE o.id::text ILIKE '%' || search_term || '%'
  ORDER BY o.created_at DESC LIMIT 1
  \<close>
\<close>

definition search_order_by_id :: "string \<Rightarrow> order_row list \<Rightarrow> order_row option" where
  "search_order_by_id search_term tbl =
     most_recent (filter (\<lambda>row. ilike (o_id row) (''%'' @ search_term @ ''%'')) tbl)"

text \<open>The pattern characters of \<open>LIKE\<close>.\<close>

definition like_special :: "char \<Rightarrow> bool" where
  "like_special c = (c = CHR ''%'' \<or> c = CHR ''_'' \<or> c = CHR 0x5C)"

section \<open>Scenario data\<close>

text \<open>
  A catalog with the tracked item of the specification's scenarios (\<open>A1\<close>, 10 in
  stock, threshold 2) and an item without tracking.
\<close>

definition example_menu :: "menu_item list" where
  "example_menu =
     [\<lparr>m_id = ''A1'', m_name = ''Dog Food 1kg'', m_available = True,
       m_track_inventory = Some True, m_stock_quantity = Some 10,
       m_low_stock_threshold = Some 2\<rparr>,
      \<lparr>m_id = ''B2'', m_name = ''Leash'', m_available = True,
       m_track_inventory = Some False, m_stock_quantity = Some 1,
       m_low_stock_threshold = None\<rparr>]"

text \<open>
  The tracked record after an administrator has switched it to available by hand: 1 in
  stock with threshold 2, where the stock alone would make it unavailable.
\<close>

definition manual_record :: menu_item where
  "manual_record =
     \<lparr>m_id = ''A1'', m_name = ''Dog Food 1kg'', m_available = True,
      m_track_inventory = Some True, m_stock_quantity = Some 1,
      m_low_stock_threshold = Some 2\<rparr>"

text \<open>
  Orders of one customer profile, by uuid, contact number, origin address and creation
  time, and a table of four of them for the search.
\<close>

definition example_order :: "string \<Rightarrow> string \<Rightarrow> string option \<Rightarrow> int \<Rightarrow> order_row" where
  "example_order uuid contact ip created =
     \<lparr>o_id = uuid, o_customer_name = ''Jane Doe'', o_contact_number = Some contact,
      o_service_type = Pickup, o_address = None, o_pickup_time = Some ''15-20 min'',
      o_party_size = None, o_dine_in_time = None, o_payment_method = ''GCash'',
      o_reference_number = None, o_notes = None, o_total = 50000, o_status = ''pending'',
      o_ip_address = ip, o_receipt_url = None, o_created_at = created\<rparr>"

definition example_orders :: "order_row list" where
  "example_orders =
     [example_order ''3f2b8c1e-7a4d-4e9b-9c0a-5d6e7f8091ab'' ''09171234567'' None 1000000,
      example_order ''9c0a5d6e-1b2c-4d3e-8f90-ab12cd34ef56'' ''09179990000'' None 2000000,
      example_order ''0ab12f00-5e6f-4a7b-8c9d-0e1f2a3b4c5d'' ''09170001111'' None 3000000,
      example_order ''77777777-8888-4999-8aaa-bbbbbbbbbbbb'' ''09175550000'' None 4000000]"

text \<open>
  The submission of the specification's scenarios: Jane Doe orders Dog Food 1kg (item
  \<open>A1\<close>, 250.00 each) for pickup; \<open>jane_payload\<close> takes the contact number, the
  quantities of the cart's lines (one line each, all of item \<open>A1\<close>) and the total the
  caller sends. \<open>shop_db\<close> is a store without orders whose item \<open>A1\<close> has the given
  stock, and \<open>env_at\<close> a call at a given time, with the uuid it draws and no storage
  fault.
\<close>

definition jane_item :: "int \<Rightarrow> cart_item" where
  "jane_item qty =
     \<lparr>ci_id = ''A1'', ci_menuItemId = Some ''A1'', ci_name = ''Dog Food 1kg'',
      ci_totalPrice = 25000, ci_quantity = qty, ci_selectedVariation = None,
      ci_selectedAddOns = None\<rparr>"

definition jane_payload :: "string \<Rightarrow> int list \<Rightarrow> int \<Rightarrow> order_payload" where
  "jane_payload contact qtys amount =
     \<lparr>p_customerName = ''Jane Doe'', p_contactNumber = contact, p_serviceType = Pickup,
      p_address = None, p_pickupTime = Some ''15-20 min'', p_partySize = None,
      p_dineInTime = None, p_paymentMethod = ''GCash'', p_referenceNumber = None,
      p_notes = None, p_total = amount, p_items = map jane_item qtys,
      p_receiptUrl = None\<rparr>"

definition shop_db :: "int \<Rightarrow> db" where
  "shop_db stock =
     \<lparr>orders = [], order_items = [],
      menu_items =
        [\<lparr>m_id = ''A1'', m_name = ''Dog Food 1kg'', m_available = True,
          m_track_inventory = Some True, m_stock_quantity = Some stock,
          m_low_stock_threshold = Some 2\<rparr>,
         \<lparr>m_id = ''B2'', m_name = ''Leash'', m_available = True,
          m_track_inventory = Some False, m_stock_quantity = Some 1,
          m_low_stock_threshold = None\<rparr>]\<rparr>"

definition env_at :: "int \<Rightarrow> string \<Rightarrow> call_env" where
  "env_at now uuid =
     \<lparr>e_now = now, e_new_id = uuid, e_orders_fault = False, e_items_fault = False,
      e_decrement_fault = False\<rparr>"

section \<open>Notions of the specification\<close>

text \<open>
  The quantity a cart requests of a catalog item, in the specification's words: the sum
  of the quantities of all line items that reference the item.
\<close>

definition requested_quantity :: "cart_item list \<Rightarrow> string \<Rightarrow> int" where
  "requested_quantity items i =
     sum_list (map ci_quantity (filter (\<lambda>ci. item_id_of ci = i) items))"

text \<open>
  A submission whose stock check and validation pass and that meets no storage fault
  while it inserts: no tracked item is short, the uuid drawn is new, and every line has
  a positive quantity.
\<close>

definition submission_passes :: "db \<Rightarrow> call_env \<Rightarrow> order_payload \<Rightarrow> bool" where
  "submission_passes d env payload =
     (insufficientItem d (stock_adjustments (p_items payload)) = None \<and>
      \<not> e_orders_fault env \<and> \<not> e_items_fault env \<and>
      e_new_id env \<notin> set (map o_id (orders d)) \<and>
      list_all (\<lambda>ci. ci_quantity ci > 0) (p_items payload))"

section \<open>Properties\<close>

subsection \<open>Stock decrement\<close>

lemma sync_id: "m_id (sync_menu_item_availability OLD NEW) = m_id NEW"
  by (simp add: sync_menu_item_availability_def Let_def)

lemma sync_track: "m_track_inventory (sync_menu_item_availability OLD NEW) = m_track_inventory NEW"
  by (simp add: sync_menu_item_availability_def Let_def)

lemma sync_stock_tracked:
  "coalesce (m_track_inventory NEW) False \<Longrightarrow>
   m_stock_quantity (sync_menu_item_availability OLD NEW) = Some (max (coalesce (m_stock_quantity NEW) 0) 0)"
  by (simp add: sync_menu_item_availability_def Let_def)

lemma length_decrement_entry: "length (decrement_entry e tbl) = length tbl"
  by (simp add: decrement_entry_def update_menu_items_def)

lemma nth_decrement_entry:
  "k < length tbl \<Longrightarrow>
   decrement_entry e tbl ! k =
     (if tracked (tbl ! k) \<and> m_id (tbl ! k) = fst e
      then sync_menu_item_availability (Some (tbl ! k))
             ((tbl ! k)\<lparr>m_stock_quantity := Some (max (coalesce (m_stock_quantity (tbl ! k)) 0 - snd e) 0)\<rparr>)
      else tbl ! k)"
  by (simp add: decrement_entry_def update_menu_items_def)

lemma decrement_entry_row:
  assumes "k < length tbl"
  shows "m_id (decrement_entry (i, qty) tbl ! k) = m_id (tbl ! k) \<and>
         m_track_inventory (decrement_entry (i, qty) tbl ! k) = m_track_inventory (tbl ! k) \<and>
         (if tracked (tbl ! k) \<and> m_id (tbl ! k) = i
          then m_stock_quantity (decrement_entry (i, qty) tbl ! k) =
                 Some (max (coalesce (m_stock_quantity (tbl ! k)) 0 - qty) 0)
          else decrement_entry (i, qty) tbl ! k = tbl ! k)"
  using assms
  by (simp add: nth_decrement_entry sync_id sync_track sync_stock_tracked tracked_def coalesce_def)

lemma decrement_entry_step:
  assumes "k < length tbl"
  shows "m_track_inventory (decrement_entry e tbl ! k) = m_track_inventory (tbl ! k) \<and>
         (\<not> tracked (tbl ! k) \<longrightarrow> decrement_entry e tbl ! k = tbl ! k) \<and>
         (stock_nonneg (tbl ! k) \<longrightarrow> stock_nonneg (decrement_entry e tbl ! k))"
  using assms decrement_entry_row [of k tbl "fst e" "snd e"]
  by (auto simp: stock_nonneg_def coalesce_def split: if_splits)

lemma decrement_batch_step:
  "length (decrement_menu_item_stock items tbl) = length tbl \<and>
   (\<forall>k < length tbl.
      m_track_inventory (decrement_menu_item_stock items tbl ! k) = m_track_inventory (tbl ! k) \<and>
      (\<not> tracked (tbl ! k) \<longrightarrow> decrement_menu_item_stock items tbl ! k = tbl ! k) \<and>
      (stock_nonneg (tbl ! k) \<longrightarrow> stock_nonneg (decrement_menu_item_stock items tbl ! k)))"
proof (induction items arbitrary: tbl)
  case Nil
  show ?case by (simp add: decrement_menu_item_stock_def)
next
  case (Cons e items)
  have unfold: "decrement_menu_item_stock (e # items) tbl =
                decrement_menu_item_stock items (decrement_entry e tbl)"
    by (simp add: decrement_menu_item_stock_def)
  have len: "length (decrement_entry e tbl) = length tbl"
    by (rule length_decrement_entry)
  show ?case
    unfolding unfold
    using Cons.IH [of "decrement_entry e tbl"] decrement_entry_step [of _ tbl e] len
    by (auto simp: tracked_def)
qed

lemma decrement_sequence_step:
  "length (foldl (\<lambda>t items. decrement_menu_item_stock items t) tbl batches) = length tbl \<and>
   (\<forall>k < length tbl.
      m_track_inventory (foldl (\<lambda>t items. decrement_menu_item_stock items t) tbl batches ! k)
        = m_track_inventory (tbl ! k) \<and>
      (\<not> tracked (tbl ! k) \<longrightarrow>
         foldl (\<lambda>t items. decrement_menu_item_stock items t) tbl batches ! k = tbl ! k) \<and>
      (stock_nonneg (tbl ! k) \<longrightarrow>
         stock_nonneg (foldl (\<lambda>t items. decrement_menu_item_stock items t) tbl batches ! k)))"
proof (induction batches arbitrary: tbl)
  case Nil
  show ?case by simp
next
  case (Cons b batches)
  show ?case
    using Cons.IH [of "decrement_menu_item_stock b tbl"] decrement_batch_step [of b tbl]
    by (auto simp: tracked_def)
qed

lemma decrement_batch_Cons:
  "decrement_menu_item_stock (e # items) tbl =
     decrement_menu_item_stock items (decrement_entry e tbl)"
  by (simp add: decrement_menu_item_stock_def)

lemma decrement_batch_append:
  "decrement_menu_item_stock (xs @ ys) tbl =
     decrement_menu_item_stock ys (decrement_menu_item_stock xs tbl)"
  by (simp add: decrement_menu_item_stock_def)

lemma decrement_sequence_concat:
  "foldl (\<lambda>t items. decrement_menu_item_stock items t) tbl batches =
     decrement_menu_item_stock (concat batches) tbl"
proof (induction batches arbitrary: tbl)
  case Nil
  show ?case by (simp add: decrement_menu_item_stock_def)
next
  case (Cons b batches)
  show ?case by (simp add: Cons.IH decrement_batch_append)
qed

lemma decrement_batch_row:
  "k < length tbl \<Longrightarrow>
   (if tracked (tbl ! k) \<and> filter (\<lambda>e. fst e = m_id (tbl ! k)) items \<noteq> []
    then m_stock_quantity (decrement_menu_item_stock items tbl ! k) =
           Some (foldl (\<lambda>q n. max (q - n) 0) (coalesce (m_stock_quantity (tbl ! k)) 0)
                   (map snd (filter (\<lambda>e. fst e = m_id (tbl ! k)) items))) \<and>
         m_id (decrement_menu_item_stock items tbl ! k) = m_id (tbl ! k) \<and>
         m_track_inventory (decrement_menu_item_stock items tbl ! k) = m_track_inventory (tbl ! k)
    else decrement_menu_item_stock items tbl ! k = tbl ! k)"
proof (induction items arbitrary: tbl)
  case Nil
  show ?case by (simp add: decrement_menu_item_stock_def)
next
  case (Cons e items)
  let ?tbl1 = "decrement_entry e tbl"
  let ?r = "tbl ! k" and ?r1 = "?tbl1 ! k"
  have k1: "k < length ?tbl1" using Cons.prems by (simp add: length_decrement_entry)
  note IH = Cons.IH [OF k1]
  from decrement_entry_row [OF Cons.prems, of "fst e" "snd e", unfolded prod.collapse]
  have id1: "m_id ?r1 = m_id ?r" and tr1: "m_track_inventory ?r1 = m_track_inventory ?r"
    and step: "if tracked ?r \<and> m_id ?r = fst e
          then m_stock_quantity ?r1 = Some (max (coalesce (m_stock_quantity ?r) 0 - snd e) 0)
          else ?r1 = ?r"
    by simp_all
  have trk: "tracked ?r1 = tracked ?r" using tr1 by (simp add: tracked_def)
  show ?case
  proof (cases "tracked ?r \<and> m_id ?r = fst e")
    case False
    then have same: "?r1 = ?r" using step by simp
    from False have flt: "filter (\<lambda>x. fst x = m_id ?r) (e # items)
                        = filter (\<lambda>x. fst x = m_id ?r) items \<or> \<not> tracked ?r"
      by auto
    show ?thesis
    proof (cases "tracked ?r")
      case True
      with False have "fst e \<noteq> m_id ?r" by auto
      then have "filter (\<lambda>x. fst x = m_id ?r) (e # items) = filter (\<lambda>x. fst x = m_id ?r) items"
        by simp
      with IH show ?thesis unfolding decrement_batch_Cons same by simp
    next
      case nt: False
      with IH show ?thesis unfolding decrement_batch_Cons same by simp
    qed
  next
    case True
    then have st1: "m_stock_quantity ?r1 = Some (max (coalesce (m_stock_quantity ?r) 0 - snd e) 0)"
      using step by simp
    from True have flt: "filter (\<lambda>x. fst x = m_id ?r) (e # items)
                        = e # filter (\<lambda>x. fst x = m_id ?r) items"
      by simp
    show ?thesis
    proof (cases "filter (\<lambda>x. fst x = m_id ?r) items = []")
      case True
      with IH have "decrement_menu_item_stock items ?tbl1 ! k = ?r1"
        by (simp add: id1)
      with \<open>tracked ?r \<and> m_id ?r = fst e\<close> True st1 id1 tr1 show ?thesis
        unfolding decrement_batch_Cons flt by simp
    next
      case False
      with IH \<open>tracked ?r \<and> m_id ?r = fst e\<close> trk
      have "m_stock_quantity (decrement_menu_item_stock items ?tbl1 ! k) =
           Some (foldl (\<lambda>q n. max (q - n) 0) (coalesce (m_stock_quantity ?r1) 0)
                   (map snd (filter (\<lambda>x. fst x = m_id ?r) items)))"
        and "m_id (decrement_menu_item_stock items ?tbl1 ! k) = m_id ?r"
        and "m_track_inventory (decrement_menu_item_stock items ?tbl1 ! k) = m_track_inventory ?r"
        by (simp_all add: id1 tr1)
      with \<open>tracked ?r \<and> m_id ?r = fst e\<close> st1 show ?thesis
        unfolding decrement_batch_Cons flt by (simp add: coalesce_def)
    qed
  qed
qed

lemma distinct_entry:
  "distinct (map fst items) \<Longrightarrow> (i, qty) \<in> set items \<Longrightarrow>
   map snd (filter (\<lambda>e. fst e = i) items) = [qty]"
proof (induction items)
  case Nil
  then show ?case by simp
next
  case (Cons e items)
  show ?case
  proof (cases "e = (i, qty)")
    case True
    with Cons.prems have "i \<notin> fst ` set items" by simp
    then have "filter (\<lambda>e. fst e = i) items = []"
      by (auto simp: filter_empty_conv)
    with True show ?thesis by simp
  next
    case False
    with Cons.prems have in_rest: "(i, qty) \<in> set items" by simp
    then have "i \<in> fst ` set items" by force
    with Cons.prems have "fst e \<noteq> i" by auto
    with Cons.IH in_rest Cons.prems show ?thesis by simp
  qed
qed

text \<open>
  C1. One decrement entry sets the stock of every tracked row of its item to
  \<open>max (current - requested) 0\<close>, with a NULL stock read as 0, and leaves every other
  row as it is. A batch, \<open>decrement_menu_item_stock\<close>, does so for its entries in turn:
  a tracked row that some entries name ends with the stock that the clamped
  subtractions of those entries give in their order, which is
  \<open>max (current - requested) 0\<close> when the ids of the batch are distinct, and any other
  row stays as it is. A sequence of batches is the batch of all their entries. Through
  any sequence a row without tracking stays as it is, and if no tracked row has a
  negative stock before, none has one after.
\<close>

theorem decrement_stock_never_negative:
  "(\<forall>k < length tbl.
      if tracked (tbl ! k) \<and> m_id (tbl ! k) = i
      then m_stock_quantity (decrement_entry (i, qty) tbl ! k) =
             Some (max (coalesce (m_stock_quantity (tbl ! k)) 0 - qty) 0)
      else decrement_entry (i, qty) tbl ! k = tbl ! k) \<and>
   (\<forall>k < length tbl.
      if tracked (tbl ! k) \<and> filter (\<lambda>e. fst e = m_id (tbl ! k)) items \<noteq> []
      then m_stock_quantity (decrement_menu_item_stock items tbl ! k) =
             Some (foldl (\<lambda>q n. max (q - n) 0) (coalesce (m_stock_quantity (tbl ! k)) 0)
                     (map snd (filter (\<lambda>e. fst e = m_id (tbl ! k)) items))) \<and>
           m_id (decrement_menu_item_stock items tbl ! k) = m_id (tbl ! k) \<and>
           m_track_inventory (decrement_menu_item_stock items tbl ! k)
             = m_track_inventory (tbl ! k)
      else decrement_menu_item_stock items tbl ! k = tbl ! k) \<and>
   (distinct (map fst items) \<longrightarrow>
      (\<forall>k < length tbl. \<forall>n. tracked (tbl ! k) \<and> (m_id (tbl ! k), n) \<in> set items \<longrightarrow>
         m_stock_quantity (decrement_menu_item_stock items tbl ! k) =
           Some (max (coalesce (m_stock_quantity (tbl ! k)) 0 - n) 0))) \<and>
   length (decrement_menu_item_stock items tbl) = length tbl \<and>
   foldl (\<lambda>t items. decrement_menu_item_stock items t) tbl batches
     = decrement_menu_item_stock (concat batches) tbl \<and>
   length (foldl (\<lambda>t items. decrement_menu_item_stock items t) tbl batches) = length tbl \<and>
   (\<forall>k < length tbl. \<not> tracked (tbl ! k) \<longrightarrow>
      foldl (\<lambda>t items. decrement_menu_item_stock items t) tbl batches ! k = tbl ! k) \<and>
   ((\<forall>r \<in> set tbl. tracked r \<longrightarrow> stock_nonneg r) \<longrightarrow>
    (\<forall>r \<in> set (foldl (\<lambda>t items. decrement_menu_item_stock items t) tbl batches).
       tracked r \<longrightarrow> stock_nonneg r))"
proof (intro conjI)
  show "\<forall>k < length tbl.
      if tracked (tbl ! k) \<and> m_id (tbl ! k) = i
      then m_stock_quantity (decrement_entry (i, qty) tbl ! k) =
             Some (max (coalesce (m_stock_quantity (tbl ! k)) 0 - qty) 0)
      else decrement_entry (i, qty) tbl ! k = tbl ! k"
    using decrement_entry_row [of _ tbl i qty] by simp
next
  show "\<forall>k < length tbl.
      if tracked (tbl ! k) \<and> filter (\<lambda>e. fst e = m_id (tbl ! k)) items \<noteq> []
      then m_stock_quantity (decrement_menu_item_stock items tbl ! k) =
             Some (foldl (\<lambda>q n. max (q - n) 0) (coalesce (m_stock_quantity (tbl ! k)) 0)
                     (map snd (filter (\<lambda>e. fst e = m_id (tbl ! k)) items))) \<and>
           m_id (decrement_menu_item_stock items tbl ! k) = m_id (tbl ! k) \<and>
           m_track_inventory (decrement_menu_item_stock items tbl ! k)
             = m_track_inventory (tbl ! k)
      else decrement_menu_item_stock items tbl ! k = tbl ! k"
    using decrement_batch_row [of _ tbl items] by blast
next
  show "distinct (map fst items) \<longrightarrow>
      (\<forall>k < length tbl. \<forall>n. tracked (tbl ! k) \<and> (m_id (tbl ! k), n) \<in> set items \<longrightarrow>
         m_stock_quantity (decrement_menu_item_stock items tbl ! k) =
           Some (max (coalesce (m_stock_quantity (tbl ! k)) 0 - n) 0))"
  proof (intro impI allI)
    fix k n
    assume d: "distinct (map fst items)" and k: "k < length tbl"
      and r: "tracked (tbl ! k) \<and> (m_id (tbl ! k), n) \<in> set items"
    from distinct_entry [OF d] r
    have one: "map snd (filter (\<lambda>e. fst e = m_id (tbl ! k)) items) = [n]" by simp
    then have "filter (\<lambda>e. fst e = m_id (tbl ! k)) items \<noteq> []" by auto
    with decrement_batch_row [OF k, of items] r one
    show "m_stock_quantity (decrement_menu_item_stock items tbl ! k) =
           Some (max (coalesce (m_stock_quantity (tbl ! k)) 0 - n) 0)"
      by simp
  qed
next
  show "length (decrement_menu_item_stock items tbl) = length tbl"
    using decrement_batch_step [of items tbl] by simp
next
  show "foldl (\<lambda>t items. decrement_menu_item_stock items t) tbl batches
     = decrement_menu_item_stock (concat batches) tbl"
    by (rule decrement_sequence_concat)
next
  show "length (foldl (\<lambda>t items. decrement_menu_item_stock items t) tbl batches) = length tbl"
    using decrement_sequence_step [of tbl batches] by simp
next
  show "\<forall>k < length tbl. \<not> tracked (tbl ! k) \<longrightarrow>
      foldl (\<lambda>t items. decrement_menu_item_stock items t) tbl batches ! k = tbl ! k"
    using decrement_sequence_step [of tbl batches] by simp
next
  let ?res = "foldl (\<lambda>t items. decrement_menu_item_stock items t) tbl batches"
  show "(\<forall>r \<in> set tbl. tracked r \<longrightarrow> stock_nonneg r) \<longrightarrow>
        (\<forall>r \<in> set ?res. tracked r \<longrightarrow> stock_nonneg r)"
  proof (intro impI ballI)
    fix r
    assume inv: "\<forall>r \<in> set tbl. tracked r \<longrightarrow> stock_nonneg r"
      and r: "r \<in> set ?res" and tr: "tracked r"
    from r obtain k where k: "k < length ?res" "?res ! k = r"
      by (auto simp: in_set_conv_nth)
    have len: "length ?res = length tbl"
      using decrement_sequence_step [of tbl batches] by simp
    with k have kt: "k < length tbl" by simp
    have same: "m_track_inventory (?res ! k) = m_track_inventory (tbl ! k)"
      and keep: "stock_nonneg (tbl ! k) \<longrightarrow> stock_nonneg (?res ! k)"
      using decrement_sequence_step [of tbl batches] kt by simp_all
    from tr k same have "tracked (tbl ! k)" by (simp add: tracked_def)
    moreover have "tbl ! k \<in> set tbl" using kt by simp
    ultimately have "stock_nonneg (tbl ! k)" using inv by blast
    with keep k show "stock_nonneg r" by simp
  qed
qed

theorem decrement_stock_never_negative_witness:
  "distinct (map fst [(''A1'', 2 :: int), (''B2'', 5)]) \<and>
   list_all (\<lambda>r. tracked r \<longrightarrow> stock_nonneg r) example_menu \<and>
   map m_stock_quantity (decrement_menu_item_stock [(''A1'', 2), (''B2'', 5)] example_menu)
     = [Some 8, Some 1] \<and>
   list_all (\<lambda>r. tracked r \<longrightarrow> stock_nonneg r)
     (foldl (\<lambda>t items. decrement_menu_item_stock items t) example_menu
        [[(''A1'', 2), (''B2'', 5)], [(''A1'', 20)]]) \<and>
   map m_stock_quantity
     (foldl (\<lambda>t items. decrement_menu_item_stock items t) example_menu
        [[(''A1'', 2), (''B2'', 5)], [(''A1'', 20)]]) = [Some 0, Some 1]"
proof -
  let ?items = "[(''A1'', 2 :: int), (''B2'', 5)]"
  let ?batches = "[[(''A1'', 2 :: int), (''B2'', 5)], [(''A1'', 20)]]"
  let ?res = "decrement_menu_item_stock ?items example_menu"
  let ?seq = "foldl (\<lambda>t items. decrement_menu_item_stock items t) example_menu ?batches"
  note inst = decrement_stock_never_negative
    [where tbl = example_menu and items = ?items and batches = ?batches]
  have dist: "distinct (map fst ?items)" by simp
  have pre: "\<forall>r \<in> set example_menu. tracked r \<longrightarrow> stock_nonneg r"
    by (simp add: example_menu_def tracked_def stock_nonneg_def coalesce_def)
  have menu: "length example_menu = 2"
    "tracked (example_menu ! 0)" "m_id (example_menu ! 0) = ''A1''"
    "m_stock_quantity (example_menu ! 0) = Some 10"
    "\<not> tracked (example_menu ! 1)" "m_stock_quantity (example_menu ! 1) = Some 1"
    by (simp_all add: example_menu_def tracked_def)
  from inst have len: "length ?res = length example_menu" by blast
  from inst dist have "\<forall>k < length example_menu. \<forall>n.
      tracked (example_menu ! k) \<and> (m_id (example_menu ! k), n) \<in> set ?items \<longrightarrow>
         m_stock_quantity (?res ! k) =
           Some (max (coalesce (m_stock_quantity (example_menu ! k)) 0 - n) 0)"
    by blast
  from this [rule_format, of 0 2] menu
  have r0: "m_stock_quantity (?res ! 0) = Some 8"
    by (simp add: coalesce_def)
  from inst have "\<forall>k < length example_menu.
      if tracked (example_menu ! k) \<and> filter (\<lambda>e. fst e = m_id (example_menu ! k)) ?items \<noteq> []
      then m_stock_quantity (?res ! k) =
             Some (foldl (\<lambda>q n. max (q - n) 0) (coalesce (m_stock_quantity (example_menu ! k)) 0)
                     (map snd (filter (\<lambda>e. fst e = m_id (example_menu ! k)) ?items))) \<and>
           m_id (?res ! k) = m_id (example_menu ! k) \<and>
           m_track_inventory (?res ! k) = m_track_inventory (example_menu ! k)
      else ?res ! k = example_menu ! k"
    by blast
  from this [rule_format, of 1] menu
  have r1: "m_stock_quantity (?res ! 1) = Some 1"
    by simp
  have batch: "map m_stock_quantity ?res = [Some 8, Some 1]"
  proof (rule nth_equalityI)
    show "length (map m_stock_quantity ?res) = length [Some 8, Some (1::int)]"
      using len menu(1) by simp
  next
    fix j
    assume "j < length (map m_stock_quantity ?res)"
    with len menu(1) have j: "j = 0 \<or> j = 1" by auto
    with len menu(1) r0 r1 show "map m_stock_quantity ?res ! j = [Some 8, Some 1] ! j"
      by auto
  qed
  from inst pre have post: "\<forall>r \<in> set ?seq. tracked r \<longrightarrow> stock_nonneg r"
    by blast
  have val: "map m_stock_quantity ?seq = [Some 0, Some 1]"
    by code_simp
  from dist pre batch post val show ?thesis by (simp add: list_all_iff)
qed

subsection \<open>Availability trigger\<close>

text \<open>
  C2, as stated, fails: a record with tracking enabled is written with the tracking flag
  switched off. The trigger's guard skips a row that is written without tracking, so the
  row is stored as written and its availability is not recomputed: it stays true with a
  stock of 1 under the threshold 2.
\<close>

theorem availability_recompute_counterexample:
  "tracked manual_record \<and>
   m_track_inventory (manual_record\<lparr>m_track_inventory := Some False\<rparr>)
     \<noteq> m_track_inventory manual_record \<and>
   sync_menu_item_availability (Some manual_record)
     (manual_record\<lparr>m_track_inventory := Some False\<rparr>)
     = manual_record\<lparr>m_track_inventory := Some False\<rparr> \<and>
   m_available (sync_menu_item_availability (Some manual_record)
     (manual_record\<lparr>m_track_inventory := Some False\<rparr>)) \<noteq>
   (coalesce (m_stock_quantity (sync_menu_item_availability (Some manual_record)
       (manual_record\<lparr>m_track_inventory := Some False\<rparr>))) 0
    > coalesce (m_low_stock_threshold (sync_menu_item_availability (Some manual_record)
       (manual_record\<lparr>m_track_inventory := Some False\<rparr>))) 0)"
  by (simp add: manual_record_def tracked_def sync_menu_item_availability_def coalesce_def)

lemma sync_untracked: "\<not> coalesce (m_track_inventory NEW) False \<Longrightarrow> sync_menu_item_availability OLD NEW = NEW"
  by (simp add: sync_menu_item_availability_def)

lemma sync_tracked_available:
  assumes "coalesce (m_track_inventory NEW) False"
  shows "m_stock_quantity (sync_menu_item_availability (Some OLD) NEW)
           = Some (max (coalesce (m_stock_quantity NEW) 0) 0)"
    and "m_low_stock_threshold (sync_menu_item_availability (Some OLD) NEW)
           = Some (max (coalesce (m_low_stock_threshold NEW) 0) 0)"
    and "m_available (sync_menu_item_availability (Some OLD) NEW) =
          (if Some (max (coalesce (m_stock_quantity NEW) 0) 0) = m_stock_quantity OLD \<and>
              Some (max (coalesce (m_low_stock_threshold NEW) 0) 0) = m_low_stock_threshold OLD \<and>
              m_track_inventory NEW = m_track_inventory OLD
           then m_available NEW
           else max (coalesce (m_stock_quantity NEW) 0) 0 > max (coalesce (m_low_stock_threshold NEW) 0) 0)"
  using assms
  by (auto simp: sync_menu_item_availability_def Let_def is_distinct_from_def old_col_def)

lemma sync_unrelated_write:
  assumes "tracked OLD" "0 \<le> q" "0 \<le> t"
    "m_stock_quantity OLD = Some q" "m_low_stock_threshold OLD = Some t"
  shows "sync_menu_item_availability (Some OLD) (OLD\<lparr>m_name := n, m_available := a\<rparr>)
         = OLD\<lparr>m_name := n, m_available := a\<rparr>"
  using assms
  by (simp add: sync_menu_item_availability_def Let_def is_distinct_from_def old_col_def
      tracked_def coalesce_def)

text \<open>
  C2, amended. For a write whose row has tracking enabled, the stored quantity and
  threshold are the written ones clamped to 0 from below (NULL read as 0); if they and
  the tracking flag equal the old row's, the availability is the one the write carries,
  otherwise it is \<open>quantity > threshold\<close>. A row written with tracking off or NULL is
  stored as written. In particular, on a record with tracking enabled and a quantity
  and threshold that are not negative, a write that touches only the name and the
  availability is stored as written: the availability set by hand survives.
\<close>

theorem sync_menu_item_availability_rule:
  "(let R = sync_menu_item_availability (Some OLD) NEW in
     if coalesce (m_track_inventory NEW) False then
       m_stock_quantity R = Some (max (coalesce (m_stock_quantity NEW) 0) 0) \<and>
       m_low_stock_threshold R = Some (max (coalesce (m_low_stock_threshold NEW) 0) 0) \<and>
       (if m_stock_quantity R = m_stock_quantity OLD \<and>
           m_low_stock_threshold R = m_low_stock_threshold OLD \<and>
           m_track_inventory R = m_track_inventory OLD
        then m_available R = m_available NEW
        else m_available R =
               (coalesce (m_stock_quantity R) 0 > coalesce (m_low_stock_threshold R) 0))
     else R = NEW) \<and>
   (tracked OLD \<and> 0 \<le> q \<and> 0 \<le> t \<and>
    m_stock_quantity OLD = Some q \<and> m_low_stock_threshold OLD = Some t \<longrightarrow>
      sync_menu_item_availability (Some OLD) (OLD\<lparr>m_name := n, m_available := a\<rparr>)
        = OLD\<lparr>m_name := n, m_available := a\<rparr>)"
proof (intro conjI impI)
  show "let R = sync_menu_item_availability (Some OLD) NEW in
     if coalesce (m_track_inventory NEW) False then
       m_stock_quantity R = Some (max (coalesce (m_stock_quantity NEW) 0) 0) \<and>
       m_low_stock_threshold R = Some (max (coalesce (m_low_stock_threshold NEW) 0) 0) \<and>
       (if m_stock_quantity R = m_stock_quantity OLD \<and>
           m_low_stock_threshold R = m_low_stock_threshold OLD \<and>
           m_track_inventory R = m_track_inventory OLD
        then m_available R = m_available NEW
        else m_available R =
               (coalesce (m_stock_quantity R) 0 > coalesce (m_low_stock_threshold R) 0))
     else R = NEW"
  proof (cases "coalesce (m_track_inventory NEW) False")
    case True
    note eqs = sync_tracked_available [OF True, of OLD] sync_track [of "Some OLD" NEW]
    show ?thesis
      unfolding Let_def eqs using True
      by (auto simp: coalesce_def)
  next
    case False
    then show ?thesis by (simp add: sync_untracked)
  qed
next
  assume "tracked OLD \<and> 0 \<le> q \<and> 0 \<le> t \<and>
    m_stock_quantity OLD = Some q \<and> m_low_stock_threshold OLD = Some t"
  then show "sync_menu_item_availability (Some OLD) (OLD\<lparr>m_name := n, m_available := a\<rparr>)
        = OLD\<lparr>m_name := n, m_available := a\<rparr>"
    using sync_unrelated_write [where OLD = OLD and q = q and t = t and n = n and a = a]
    by blast
qed

theorem sync_menu_item_availability_rule_witness:
  "tracked manual_record \<and> (0::int) \<le> 1 \<and> (0::int) \<le> 2 \<and>
   m_stock_quantity manual_record = Some 1 \<and> m_low_stock_threshold manual_record = Some 2 \<and>
   sync_menu_item_availability (Some manual_record)
     (manual_record\<lparr>m_name := ''Dog Food (1 kg)'', m_available := True\<rparr>)
     = manual_record\<lparr>m_name := ''Dog Food (1 kg)'', m_available := True\<rparr> \<and>
   m_available (sync_menu_item_availability (Some manual_record)
     (manual_record\<lparr>m_stock_quantity := Some 10\<rparr>)) = True \<and>
   m_available (sync_menu_item_availability (Some manual_record)
     (manual_record\<lparr>m_low_stock_threshold := Some 1\<rparr>)) = False"
proof -
  have pre: "tracked manual_record \<and> (0::int) \<le> 1 \<and> (0::int) \<le> 2 \<and>
    m_stock_quantity manual_record = Some 1 \<and> m_low_stock_threshold manual_record = Some 2"
    by (simp add: manual_record_def tracked_def)
  have keep: "sync_menu_item_availability (Some manual_record)
     (manual_record\<lparr>m_name := ''Dog Food (1 kg)'', m_available := True\<rparr>)
     = manual_record\<lparr>m_name := ''Dog Food (1 kg)'', m_available := True\<rparr>"
    using sync_menu_item_availability_rule
      [where OLD = manual_record and NEW = manual_record and q = 1 and t = 2
         and n = "''Dog Food (1 kg)''" and a = True] pre
    by blast
  have re1: "m_available (sync_menu_item_availability (Some manual_record)
     (manual_record\<lparr>m_stock_quantity := Some 10\<rparr>)) = True"
    using sync_menu_item_availability_rule
      [where OLD = manual_record and NEW = "manual_record\<lparr>m_stock_quantity := Some 10\<rparr>"]
    by (simp add: manual_record_def Let_def coalesce_def)
  have re2: "m_available (sync_menu_item_availability (Some manual_record)
     (manual_record\<lparr>m_low_stock_threshold := Some 1\<rparr>)) = False"
    by (simp add: manual_record_def sync_menu_item_availability_def Let_def coalesce_def
        is_distinct_from_def old_col_def)
  from pre keep re1 re2 show ?thesis by simp
qed

subsection \<open>Order search\<close>

lemma char_eq_code: "(c = d) = (of_char c = (of_char d :: nat))"
  by simp

lemma like_special_iff: "like_special c = (of_char c \<in> {37, 95, 92 :: nat})"
proof -
  have "(c = CHR ''%'') = (of_char c = (37::nat))"
    by (subst char_eq_code) simp
  moreover have "(c = CHR ''_'') = (of_char c = (95::nat))"
    by (subst char_eq_code) simp
  moreover have "(c = CHR 0x5C) = (of_char c = (92::nat))"
    by (subst char_eq_code) simp
  ultimately show ?thesis by (simp add: like_special_def)
qed

lemma of_char_lower: "(of_char (lower_char c) :: nat) =
   (if 65 \<le> (of_char c::nat) \<and> (of_char c::nat) \<le> 90 then of_char c + 32 else of_char c)"
  by (simp add: lower_char_def Let_def)

lemma like_special_lower [simp]: "like_special (lower_char c) = like_special c"
  by (auto simp: like_special_iff of_char_lower)

lemma like_percent_all: "like_match ''%'' s"
  by (induction s) simp_all

lemma like_literal_prefix:
  "\<forall>c \<in> set f. \<not> like_special c \<Longrightarrow> like_match (f @ ''%'') s = prefix f s"
proof (induction f arbitrary: s)
  case Nil
  then show ?case using like_percent_all by simp
next
  case (Cons x f)
  then have x: "x \<noteq> CHR ''%''" "x \<noteq> CHR ''_''" "x \<noteq> CHR 0x5C"
    by (auto simp: like_special_def)
  from Cons have IH: "\<And>s. like_match (f @ ''%'') s = prefix f s" by simp
  show ?case
  proof (cases s)
    case Nil
    then show ?thesis using x by simp
  next
    case (Cons c s')
    then show ?thesis using x IH by auto
  qed
qed

lemma like_contains:
  assumes "\<forall>c \<in> set f. \<not> like_special c"
  shows "like_match (''%'' @ f @ ''%'') s = sublist f s"
proof (induction s)
  case Nil
  show ?case using like_literal_prefix [OF assms, of "[]"] by simp
next
  case (Cons c s)
  have "like_match (''%'' @ f @ ''%'') (c # s) =
        (like_match (f @ ''%'') (c # s) \<or> like_match (''%'' @ f @ ''%'') s)"
    by simp
  also have "\<dots> = (prefix f (c # s) \<or> sublist f s)"
    using like_literal_prefix [OF assms] Cons.IH by simp
  also have "\<dots> = sublist f (c # s)"
    by (simp add: sublist_Cons_right)
  finally show ?case .
qed

lemma ilike_contains:
  assumes "\<forall>c \<in> set term. \<not> like_special c"
  shows "ilike s (''%'' @ term @ ''%'') = sublist (map lower_char term) (map lower_char s)"
proof -
  have low: "lower_char CHR ''%'' = CHR ''%''"
    by (simp add: lower_char_def)
  have "\<forall>c \<in> set (map lower_char term). \<not> like_special c"
    using assms by simp
  from like_contains [OF this, of "map lower_char s"] show ?thesis
    by (simp add: ilike_def low)
qed

lemma most_recent_None: "(most_recent xs = None) = (xs = [])"
  by (induction xs) (auto split: option.splits)

lemma most_recent_Some:
  "most_recent xs = Some r \<Longrightarrow> r \<in> set xs \<and> (\<forall>x \<in> set xs. o_created_at x \<le> o_created_at r)"
proof (induction xs arbitrary: r)
  case Nil
  then show ?case by simp
next
  case (Cons x xs)
  show ?case
  proof (cases "most_recent xs")
    case None
    then have "xs = []" by (simp add: most_recent_None)
    with Cons.prems show ?thesis by simp
  next
    case (Some y)
    from Cons.IH [OF Some] have y: "y \<in> set xs" "\<forall>z \<in> set xs. o_created_at z \<le> o_created_at y"
      by simp_all
    show ?thesis
    proof (cases "o_created_at y > o_created_at x")
      case True
      with Cons.prems Some have "r = y" by simp
      with y True show ?thesis by auto
    next
      case False
      with Cons.prems Some have "r = x" by simp
      with y False show ?thesis by fastforce
    qed
  qed
qed

lemma search_contains_filter:
  assumes "\<forall>c \<in> set search_term. \<not> like_special c"
  shows "search_order_by_id search_term tbl =
         most_recent (filter (\<lambda>row. sublist (map lower_char search_term) (map lower_char (o_id row))) tbl)"
  unfolding search_order_by_id_def ilike_contains [OF assms] ..

text \<open>
  C10, amended. For a search term without the pattern characters \<open>%\<close>, \<open>_\<close> and
  backslash, \<open>search_order_by_id\<close> returns no row exactly when no order's id contains
  the term (both in lower case), and a row it returns is an order whose id contains the
  term and whose creation time is greatest among those. For the empty term it returns
  the most recent order of the table, which exists when the table is not empty.
\<close>

theorem search_order_by_id_most_recent_match:
  assumes "\<forall>c \<in> set search_term. \<not> like_special c"
  shows "((search_order_by_id search_term tbl = None) =
            (\<forall>row \<in> set tbl. \<not> sublist (map lower_char search_term) (map lower_char (o_id row)))) \<and>
         (\<forall>r. search_order_by_id search_term tbl = Some r \<longrightarrow>
            r \<in> set tbl \<and>
            sublist (map lower_char search_term) (map lower_char (o_id r)) \<and>
            (\<forall>row \<in> set tbl.
               sublist (map lower_char search_term) (map lower_char (o_id row)) \<longrightarrow>
               o_created_at row \<le> o_created_at r)) \<and>
         search_order_by_id [] tbl = most_recent tbl \<and>
         (tbl \<noteq> [] \<longrightarrow>
            (\<exists>r \<in> set tbl. search_order_by_id [] tbl = Some r \<and>
               (\<forall>row \<in> set tbl. o_created_at row \<le> o_created_at r)))"
proof (intro conjI allI impI)
  let ?hit = "\<lambda>row. sublist (map lower_char search_term) (map lower_char (o_id row))"
  note eq = search_contains_filter [OF assms, of tbl]
  show "(search_order_by_id search_term tbl = None) = (\<forall>row \<in> set tbl. \<not> ?hit row)"
    unfolding eq most_recent_None by (simp add: filter_empty_conv)
  fix r
  assume "search_order_by_id search_term tbl = Some r"
  then have "most_recent (filter ?hit tbl) = Some r" unfolding eq .
  from most_recent_Some [OF this]
  have r: "r \<in> set (filter ?hit tbl)"
    and top: "\<forall>x \<in> set (filter ?hit tbl). o_created_at x \<le> o_created_at r"
    by simp_all
  from r show "r \<in> set tbl" by simp
  from r show "?hit r" by simp
  from top show "\<forall>row \<in> set tbl. ?hit row \<longrightarrow> o_created_at row \<le> o_created_at r" by simp
next
  have e: "search_order_by_id [] tbl = most_recent tbl"
    using search_contains_filter [of "[]" tbl] by simp
  show "search_order_by_id [] tbl = most_recent tbl" by (rule e)
  assume ne: "tbl \<noteq> []"
  then obtain r where r: "most_recent tbl = Some r"
    using most_recent_None [of tbl] by (cases "most_recent tbl") auto
  from most_recent_Some [OF r] e r
  show "\<exists>r \<in> set tbl. search_order_by_id [] tbl = Some r \<and>
               (\<forall>row \<in> set tbl. o_created_at row \<le> o_created_at r)"
    by auto
qed

text \<open>
  C10, as stated, fails: the term is a \<open>LIKE\<close> pattern. For the term \<open>%\<close> the search
  returns the most recent order of the table, and no id contains a \<open>%\<close>.
\<close>

theorem search_order_by_id_counterexample:
  "search_order_by_id ''%'' example_orders =
     Some (example_order ''77777777-8888-4999-8aaa-bbbbbbbbbbbb'' ''09175550000'' None 4000000) \<and>
   list_all (\<lambda>row. \<not> sublist (map lower_char ''%'') (map lower_char (o_id row))) example_orders"
  by code_simp

theorem search_order_by_id_most_recent_match_witness:
  "list_all (\<lambda>c. \<not> like_special c) ''AB12'' \<and>
   search_order_by_id ''AB12'' example_orders =
     Some (example_order ''0ab12f00-5e6f-4a7b-8c9d-0e1f2a3b4c5d'' ''09170001111'' None 3000000) \<and>
   search_order_by_id ''zz'' example_orders = None"
proof -
  let ?hit = "\<lambda>row. sublist (map lower_char ''AB12'') (map lower_char (o_id row))"
  let ?r1 = "example_order ''3f2b8c1e-7a4d-4e9b-9c0a-5d6e7f8091ab'' ''09171234567'' None 1000000"
  let ?r2 = "example_order ''9c0a5d6e-1b2c-4d3e-8f90-ab12cd34ef56'' ''09179990000'' None 2000000"
  let ?r3 = "example_order ''0ab12f00-5e6f-4a7b-8c9d-0e1f2a3b4c5d'' ''09170001111'' None 3000000"
  let ?r4 = "example_order ''77777777-8888-4999-8aaa-bbbbbbbbbbbb'' ''09175550000'' None 4000000"
  have pre: "\<forall>c \<in> set ''AB12''. \<not> like_special c"
    by (simp add: like_special_def)
  have pre': "\<forall>c \<in> set ''zz''. \<not> like_special c"
    by (simp add: like_special_def)
  have tbl: "set example_orders = {?r1, ?r2, ?r3, ?r4}"
    unfolding example_orders_def by simp
  have h1: "\<not> ?hit ?r1" by code_simp
  have h2: "?hit ?r2" by code_simp
  have h3: "?hit ?r3" by code_simp
  have h4: "\<not> ?hit ?r4" by code_simp
  have t2: "o_created_at ?r2 = 2000000" and t3: "o_created_at ?r3 = 3000000"
    by (simp_all add: example_order_def)
  note inst = search_order_by_id_most_recent_match [OF pre, of example_orders]
  have "\<not> (\<forall>row \<in> set example_orders. \<not> ?hit row)"
    unfolding tbl using h3 by blast
  with inst have "search_order_by_id ''AB12'' example_orders \<noteq> None" by blast
  then obtain r where r: "search_order_by_id ''AB12'' example_orders = Some r" by auto
  with inst have in_tbl: "r \<in> set example_orders" and hit: "?hit r"
    and top: "\<forall>row \<in> set example_orders. ?hit row \<longrightarrow> o_created_at row \<le> o_created_at r"
    by blast+
  from top tbl h3 t3 have late: "3000000 \<le> o_created_at r" by auto
  from in_tbl tbl have "r = ?r1 \<or> r = ?r2 \<or> r = ?r3 \<or> r = ?r4" by blast
  then have "r = ?r3"
  proof (elim disjE)
    assume "r = ?r1" with hit h1 show ?thesis by blast
  next
    assume "r = ?r2" with late t2 show ?thesis by simp
  next
    assume "r = ?r3" then show ?thesis .
  next
    assume "r = ?r4" with hit h4 show ?thesis by blast
  qed
  with r have found: "search_order_by_id ''AB12'' example_orders = Some ?r3" by simp
  have m: "\<forall>row \<in> set example_orders.
             \<not> sublist (map lower_char ''zz'') (map lower_char (o_id row))"
    by code_simp
  have none: "search_order_by_id ''zz'' example_orders = None"
    using search_order_by_id_most_recent_match [OF pre', of example_orders] m by blast
  from pre found none show ?thesis by (simp add: list_all_iff)
qed

subsection \<open>Order creation: the stock check\<close>

lemma map_of_add_adjustment:
  "map_of (add_adjustment k n acc) i =
     (if i = k then Some (coalesce (map_of acc k) 0 + n) else map_of acc i)"
  by (induction acc) (auto simp: coalesce_def)

lemma find_SomeD: "find P xs = Some x \<Longrightarrow> P x \<and> x \<in> set xs"
  by (induction xs) (auto split: if_splits)

lemma requested_absent: "i \<notin> item_id_of ` set items \<Longrightarrow> requested_quantity items i = 0"
proof -
  assume "i \<notin> item_id_of ` set items"
  then have "filter (\<lambda>ci. item_id_of ci = i) items = []"
    by (auto simp: filter_empty_conv)
  then show ?thesis by (simp add: requested_quantity_def)
qed

lemma requested_Cons:
  "requested_quantity (ci # items) i =
     (if item_id_of ci = i then ci_quantity ci else 0) + requested_quantity items i"
  by (simp add: requested_quantity_def)

lemma map_of_fold_adjustments:
  "map_of (foldl (\<lambda>acc ci. add_adjustment (item_id_of ci) (ci_quantity ci) acc) acc items) i =
     (if i \<in> item_id_of ` set items
      then Some (coalesce (map_of acc i) 0 + requested_quantity items i)
      else map_of acc i)"
proof (induction items arbitrary: acc)
  case Nil
  show ?case by (simp add: requested_quantity_def)
next
  case (Cons ci items)
  show ?case
    by (auto simp: Cons.IH map_of_add_adjustment requested_Cons requested_absent coalesce_def)
qed

lemma map_of_stock_adjustments:
  "map_of (stock_adjustments items) i =
     (if i \<in> item_id_of ` set items then Some (requested_quantity items i) else None)"
  unfolding stock_adjustments_def
  by (simp add: map_of_fold_adjustments coalesce_def)

lemma is_insufficient_iff:
  "is_insufficient (stock_adjustments items) row =
     (tracked row \<and> m_id row \<in> item_id_of ` set items \<and>
      coalesce (m_stock_quantity row) 0 < requested_quantity items (m_id row))"
  by (cases "m_track_inventory row")
     (auto simp: is_insufficient_def map_of_stock_adjustments tracked_def coalesce_def)

lemma insufficientItem_Some:
  "insufficientItem d adj = Some row \<Longrightarrow> row \<in> set (menu_items d) \<and> is_insufficient adj row"
  by (auto simp: insufficientItem_def Let_def dest: find_SomeD)

lemma insufficientItem_None:
  "(insufficientItem d adj = None) = (\<forall>row \<in> set (menu_items d). \<not> is_insufficient adj row)"
proof -
  have "\<And>row. is_insufficient adj row \<Longrightarrow> m_id row \<in> set (map fst adj)"
    by (force simp: is_insufficient_def split: option.splits dest: map_of_SomeD)
  then show ?thesis
    by (auto simp: insufficientItem_def Let_def find_None_iff)
qed

lemma offending_name_in_cart:
  assumes "m_id row \<in> item_id_of ` set (p_items payload)"
  shows "\<exists>ci \<in> set (p_items payload). item_id_of ci = m_id row \<and> offending_name payload row = ci_name ci"
proof -
  from assms have "find (\<lambda>ci. item_id_of ci = m_id row) (p_items payload) \<noteq> None"
    by (auto simp: find_None_iff)
  then obtain ci where ci: "find (\<lambda>ci. item_id_of ci = m_id row) (p_items payload) = Some ci"
    by auto
  then have "ci \<in> set (p_items payload)" "item_id_of ci = m_id row"
    by (auto dest: find_SomeD)
  with ci show ?thesis by (auto simp: offending_name_def)
qed

lemma createOrder_insufficient:
  "insufficientItem d (stock_adjustments (p_items payload)) = Some row \<Longrightarrow>
   createOrder d env payload clientIp =
     \<lparr>out_result = Inl (InsufficientStock (offending_name payload row)),
      out_warnings = [], out_db = d\<rparr>"
  by (simp add: createOrder_def Let_def)

subsection \<open>Order creation: the writes\<close>

lemma new_order_fields:
  "o_id (new_order env payload clientIp) = e_new_id env"
  "o_total (new_order env payload clientIp) = p_total payload"
  "o_created_at (new_order env payload clientIp) = e_now env"
  "o_ip_address (new_order env payload clientIp) = clientIp"
  "o_contact_number (new_order env payload clientIp) = Some (p_contactNumber payload)"
  by (simp_all add: new_order_def)

lemma order_item_of_fields:
  "oi_order_id (order_item_of ord ci) = o_id ord"
  "oi_quantity (order_item_of ord ci) = ci_quantity ci"
  "oi_unit_price (order_item_of ord ci) = ci_totalPrice ci"
  "oi_subtotal (order_item_of ord ci) = ci_totalPrice ci * ci_quantity ci"
  by (simp_all add: order_item_of_def)

lemma insert_orders_Inr:
  "(insert_orders env NEW d = Inr (ord, d1)) =
     (\<not> e_orders_fault env \<and> prevent_spam_orders_per_ip (e_now env) (orders d) NEW = None \<and>
      o_id NEW \<notin> set (map o_id (orders d)) \<and> ord = NEW \<and>
      d1 = d\<lparr>orders := orders d @ [NEW]\<rparr>)"
  by (auto simp: insert_orders_def split: option.splits)

lemma insert_orders_Inl:
  "(insert_orders env NEW d = Inl e) =
     (if e_orders_fault env then e = PersistenceError
      else if prevent_spam_orders_per_ip (e_now env) (orders d) NEW \<noteq> None then e = RateLimited
      else o_id NEW \<in> set (map o_id (orders d)) \<and> e = PersistenceError)"
  by (auto simp: insert_orders_def split: option.splits)

lemma insert_order_items_new:
  "insert_order_items env (map (order_item_of NEW) items) (d\<lparr>orders := orders d @ [NEW]\<rparr>) =
     (if e_items_fault env \<or> \<not> list_all (\<lambda>ci. ci_quantity ci > 0) items
      then Inl PersistenceError
      else Inr (d\<lparr>orders := orders d @ [NEW],
                 order_items := order_items d @ map (order_item_of NEW) items\<rparr>))"
  by (auto simp: insert_order_items_def order_item_of_fields list_all_iff)

text \<open>The outcome of a call whose stock check passes, by the three writes.\<close>

lemma createOrder_stock_ok:
  assumes "insufficientItem d (stock_adjustments (p_items payload)) = None"
  shows "createOrder d env payload clientIp =
    (let NEW = new_order env payload clientIp in
     if e_orders_fault env then
       \<lparr>out_result = Inl PersistenceError, out_warnings = [], out_db = d\<rparr>
     else if prevent_spam_orders_per_ip (e_now env) (orders d) NEW \<noteq> None then
       \<lparr>out_result = Inl RateLimited, out_warnings = [], out_db = d\<rparr>
     else if o_id NEW \<in> set (map o_id (orders d)) then
       \<lparr>out_result = Inl PersistenceError, out_warnings = [], out_db = d\<rparr>
     else if e_items_fault env \<or> \<not> list_all (\<lambda>ci. ci_quantity ci > 0) (p_items payload) then
       \<lparr>out_result = Inl PersistenceError, out_warnings = [],
        out_db = d\<lparr>orders := orders d @ [NEW]\<rparr>\<rparr>
     else if e_decrement_fault env then
       \<lparr>out_result = Inr NEW, out_warnings = [StockDecrementWarning],
        out_db = d\<lparr>orders := orders d @ [NEW],
                   order_items := order_items d @ map (order_item_of NEW) (p_items payload)\<rparr>\<rparr>
     else
       \<lparr>out_result = Inr NEW, out_warnings = [],
        out_db = d\<lparr>orders := orders d @ [NEW],
                   order_items := order_items d @ map (order_item_of NEW) (p_items payload),
                   menu_items := decrement_menu_item_stock
                     (stock_adjustments (p_items payload)) (menu_items d)\<rparr>\<rparr>)"
proof -
  let ?NEW = "new_order env payload clientIp"
  show ?thesis
  proof (cases "insert_orders env ?NEW d")
    case (Inl e)
    have run: "createOrder d env payload clientIp =
        \<lparr>out_result = Inl e, out_warnings = [], out_db = d\<rparr>"
      using assms Inl by (simp add: createOrder_def Let_def)
    from Inl have "if e_orders_fault env then e = PersistenceError
      else if prevent_spam_orders_per_ip (e_now env) (orders d) ?NEW \<noteq> None then e = RateLimited
      else o_id ?NEW \<in> set (map o_id (orders d)) \<and> e = PersistenceError"
      by (simp only: insert_orders_Inl)
    then show ?thesis
      unfolding run by (auto simp: Let_def split: if_splits)
  next
    case (Inr p)
    obtain ord d1 where p: "p = (ord, d1)" by (cases p)
    from Inr p have io: "insert_orders env ?NEW d = Inr (ord, d1)" by simp
    then have facts: "\<not> e_orders_fault env"
      "prevent_spam_orders_per_ip (e_now env) (orders d) ?NEW = None"
      "o_id ?NEW \<notin> set (map o_id (orders d))" "ord = ?NEW"
      "d1 = d\<lparr>orders := orders d @ [?NEW]\<rparr>"
      by (simp_all add: insert_orders_Inr)
    show ?thesis
      using assms facts
      by (simp add: createOrder_def Let_def io insert_order_items_new)
  qed
qed

subsection \<open>Order creation: insufficient stock\<close>


text \<open>
  C6, amended. When some tracked item that the cart references has less stock than the
  cart requests of it, \<open>createOrder\<close> fails with the insufficient stock error, which
  names a cart line of such an item; nothing is persisted and no stock changes (the
  database is returned as it was), and there is no warning.
\<close>

theorem createOrder_insufficient_stock:
  assumes "\<exists>row \<in> set (menu_items d).
             tracked row \<and> m_id row \<in> item_id_of ` set (p_items payload) \<and>
             coalesce (m_stock_quantity row) 0 < requested_quantity (p_items payload) (m_id row)"
  shows "\<exists>row \<in> set (menu_items d). \<exists>ci \<in> set (p_items payload).
           tracked row \<and> item_id_of ci = m_id row \<and>
           coalesce (m_stock_quantity row) 0 < requested_quantity (p_items payload) (m_id row) \<and>
           createOrder d env payload clientIp =
             \<lparr>out_result = Inl (InsufficientStock (ci_name ci)), out_warnings = [],
              out_db = d\<rparr>"
proof -
  let ?adj = "stock_adjustments (p_items payload)"
  from assms have "\<exists>row \<in> set (menu_items d). is_insufficient ?adj row"
    by (simp add: is_insufficient_iff)
  then have "insufficientItem d ?adj \<noteq> None"
    by (simp add: insufficientItem_None)
  then obtain row where row: "insufficientItem d ?adj = Some row" by auto
  from insufficientItem_Some [OF row]
  have in_menu: "row \<in> set (menu_items d)" and short: "is_insufficient ?adj row"
    by simp_all
  from short have facts: "tracked row" "m_id row \<in> item_id_of ` set (p_items payload)"
    "coalesce (m_stock_quantity row) 0 < requested_quantity (p_items payload) (m_id row)"
    by (simp_all add: is_insufficient_iff)
  from offending_name_in_cart [OF facts(2)]
  obtain ci where ci: "ci \<in> set (p_items payload)" "item_id_of ci = m_id row"
    "offending_name payload row = ci_name ci"
    by blast
  have "createOrder d env payload clientIp =
          \<lparr>out_result = Inl (InsufficientStock (ci_name ci)), out_warnings = [], out_db = d\<rparr>"
    using createOrder_insufficient [OF row, of env clientIp] ci(3) by simp
  with in_menu facts ci show ?thesis by blast
qed

theorem createOrder_insufficient_stock_witness:
  "list_ex (\<lambda>row. tracked row \<and>
        m_id row \<in> item_id_of ` set (p_items (jane_payload ''09171234567'' [2] 50000)) \<and>
        coalesce (m_stock_quantity row) 0
          < requested_quantity (p_items (jane_payload ''09171234567'' [2] 50000)) (m_id row))
     (menu_items (shop_db 1)) \<and>
   createOrder (shop_db 1) (env_at 1000000 ''3f2b8c1e-7a4d-4e9b-9c0a-5d6e7f8091ab'')
       (jane_payload ''09171234567'' [2] 50000) None =
     \<lparr>out_result = Inl (InsufficientStock ''Dog Food 1kg''), out_warnings = [],
      out_db = shop_db 1\<rparr>"
proof -
  let ?p = "jane_payload ''09171234567'' [2] 50000"
  have pre: "\<exists>row \<in> set (menu_items (shop_db 1)).
             tracked row \<and> m_id row \<in> item_id_of ` set (p_items ?p) \<and>
             coalesce (m_stock_quantity row) 0 < requested_quantity (p_items ?p) (m_id row)"
    by (simp add: shop_db_def jane_payload_def jane_item_def tracked_def item_id_of_def
        coalesce_def requested_quantity_def)
  have names: "\<forall>ci \<in> set (p_items ?p). ci_name ci = ''Dog Food 1kg''"
    by (simp add: jane_payload_def jane_item_def)
  from createOrder_insufficient_stock [OF pre,
      of "env_at 1000000 ''3f2b8c1e-7a4d-4e9b-9c0a-5d6e7f8091ab''" None] names
  have run: "createOrder (shop_db 1) (env_at 1000000 ''3f2b8c1e-7a4d-4e9b-9c0a-5d6e7f8091ab'')
       ?p None =
     \<lparr>out_result = Inl (InsufficientStock ''Dog Food 1kg''), out_warnings = [],
      out_db = shop_db 1\<rparr>"
    by force
  from pre run show ?thesis by (simp add: list_ex_iff)
qed

text \<open>
  C6, as stated, fails on what the error carries: the same cart against a stock of 1
  and against a stock of 0 fails with the same error value, the item's name. The
  available count is not part of it.
\<close>

theorem insufficient_stock_error_counterexample:
  "createOrder (shop_db 1) (env_at 1000000 ''3f2b8c1e-7a4d-4e9b-9c0a-5d6e7f8091ab'')
       (jane_payload ''09171234567'' [2] 50000) None =
     \<lparr>out_result = Inl (InsufficientStock ''Dog Food 1kg''), out_warnings = [],
      out_db = shop_db 1\<rparr> \<and>
   createOrder (shop_db 0) (env_at 1000000 ''3f2b8c1e-7a4d-4e9b-9c0a-5d6e7f8091ab'')
       (jane_payload ''09171234567'' [2] 50000) None =
     \<lparr>out_result = Inl (InsufficientStock ''Dog Food 1kg''), out_warnings = [],
      out_db = shop_db 0\<rparr> \<and>
   out_result (createOrder (shop_db 1) (env_at 1000000 ''3f2b8c1e-7a4d-4e9b-9c0a-5d6e7f8091ab'')
       (jane_payload ''09171234567'' [2] 50000) None) =
   out_result (createOrder (shop_db 0) (env_at 1000000 ''3f2b8c1e-7a4d-4e9b-9c0a-5d6e7f8091ab'')
       (jane_payload ''09171234567'' [2] 50000) None)"
  by code_simp


subsection \<open>Order creation: a failed insert of the line items\<close>

text \<open>
  C3. The header and the line items are inserted by two requests, and nothing undoes
  the first. When the insert of the line items fails (by a storage fault in the first
  call below, by a line with quantity 0 that breaks \<open>CHECK (quantity > 0)\<close> in the
  second), the call ends with an error and leaves the header in \<open>orders\<close> with no row
  in \<open>order_items\<close>.
\<close>

theorem createOrder_header_without_items:
  "createOrder (shop_db 10)
     ((env_at 1000000 ''3f2b8c1e-7a4d-4e9b-9c0a-5d6e7f8091ab'')\<lparr>e_items_fault := True\<rparr>)
     (jane_payload ''09171234567'' [2] 50000) None =
   \<lparr>out_result = Inl PersistenceError, out_warnings = [],
    out_db = (shop_db 10)\<lparr>orders :=
      [example_order ''3f2b8c1e-7a4d-4e9b-9c0a-5d6e7f8091ab'' ''09171234567'' None 1000000],
      order_items := []\<rparr>\<rparr> \<and>
   createOrder (shop_db 10) (env_at 1000000 ''3f2b8c1e-7a4d-4e9b-9c0a-5d6e7f8091ab'')
     (jane_payload ''09171234567'' [2, 0] 50000) None =
   \<lparr>out_result = Inl PersistenceError, out_warnings = [],
    out_db = (shop_db 10)\<lparr>orders :=
      [example_order ''3f2b8c1e-7a4d-4e9b-9c0a-5d6e7f8091ab'' ''09171234567'' None 1000000],
      order_items := []\<rparr>\<rparr>"
  by code_simp

subsection \<open>Order creation: the rate limiter and the stock check\<close>

text \<open>
  C5, as stated, fails: the stock check runs first. A submission from an address that
  placed an order one second earlier, for which the trigger raises the rate limit
  exception, and that asks for 2 of an item with 1 in stock fails with the insufficient
  stock error: the stock was read and decided the outcome. So does a submission with
  neither an origin address nor a contact number.
\<close>

theorem rate_limit_after_stock_check_counterexample:
  "prevent_spam_orders_per_ip 1000000
     (orders ((shop_db 1)\<lparr>orders :=
        [example_order ''3f2b8c1e-7a4d-4e9b-9c0a-5d6e7f8091ab'' ''09179990000''
           (Some ''203.0.113.7'') 0]\<rparr>))
     (new_order (env_at 1000000 ''9c0a5d6e-1b2c-4d3e-8f90-ab12cd34ef56'')
        (jane_payload ''09171234567'' [2] 50000) (Some ''203.0.113.7'')) = Some RateLimit \<and>
   createOrder
     ((shop_db 1)\<lparr>orders :=
        [example_order ''3f2b8c1e-7a4d-4e9b-9c0a-5d6e7f8091ab'' ''09179990000''
           (Some ''203.0.113.7'') 0]\<rparr>)
     (env_at 1000000 ''9c0a5d6e-1b2c-4d3e-8f90-ab12cd34ef56'')
     (jane_payload ''09171234567'' [2] 50000) (Some ''203.0.113.7'') =
   \<lparr>out_result = Inl (InsufficientStock ''Dog Food 1kg''), out_warnings = [],
    out_db = (shop_db 1)\<lparr>orders :=
        [example_order ''3f2b8c1e-7a4d-4e9b-9c0a-5d6e7f8091ab'' ''09179990000''
           (Some ''203.0.113.7'') 0]\<rparr>\<rparr> \<and>
   prevent_spam_orders_per_ip 1000000 (orders (shop_db 1))
     (new_order (env_at 1000000 ''3f2b8c1e-7a4d-4e9b-9c0a-5d6e7f8091ab'')
        (jane_payload [] [2] 50000) None) = Some MissingIdentifier \<and>
   createOrder (shop_db 1) (env_at 1000000 ''3f2b8c1e-7a4d-4e9b-9c0a-5d6e7f8091ab'')
     (jane_payload [] [2] 50000) None =
   \<lparr>out_result = Inl (InsufficientStock ''Dog Food 1kg''), out_warnings = [],
    out_db = shop_db 1\<rparr>"
  by code_simp

text \<open>
  C5, amended. The rate limiter is a trigger of the header insert, which comes after the
  stock check. When the trigger raises for a submission and the insert meets no storage
  fault, the call fails and the database stays as it was, with no warning: with the
  insufficient stock error if the stock check fails, with the rate limit error (the one
  error for both exceptions) if it passes.
\<close>

theorem rate_limit_gate_in_insert:
  assumes "prevent_spam_orders_per_ip (e_now env) (orders d) (new_order env payload clientIp)
             = Some exc"
    and "\<not> e_orders_fault env"
  shows "createOrder d env payload clientIp =
     \<lparr>out_result =
        (case insufficientItem d (stock_adjustments (p_items payload)) of
           Some row \<Rightarrow> Inl (InsufficientStock (offending_name payload row))
         | None \<Rightarrow> Inl RateLimited),
      out_warnings = [], out_db = d\<rparr>"
proof (cases "insufficientItem d (stock_adjustments (p_items payload))")
  case None
  show ?thesis
    unfolding createOrder_stock_ok [OF None] using assms None by (simp add: Let_def)
next
  case (Some row)
  show ?thesis
    unfolding createOrder_insufficient [OF Some] using Some by simp
qed

theorem rate_limit_gate_in_insert_witness:
  "prevent_spam_orders_per_ip
     (e_now (env_at 1000000 ''9c0a5d6e-1b2c-4d3e-8f90-ab12cd34ef56''))
     (orders ((shop_db 10)\<lparr>orders :=
        [example_order ''3f2b8c1e-7a4d-4e9b-9c0a-5d6e7f8091ab'' ''09179990000''
           (Some ''203.0.113.7'') 0]\<rparr>))
     (new_order (env_at 1000000 ''9c0a5d6e-1b2c-4d3e-8f90-ab12cd34ef56'')
        (jane_payload ''09171234567'' [2] 50000) (Some ''203.0.113.7'')) = Some RateLimit \<and>
   \<not> e_orders_fault (env_at 1000000 ''9c0a5d6e-1b2c-4d3e-8f90-ab12cd34ef56'') \<and>
   createOrder
     ((shop_db 10)\<lparr>orders :=
        [example_order ''3f2b8c1e-7a4d-4e9b-9c0a-5d6e7f8091ab'' ''09179990000''
           (Some ''203.0.113.7'') 0]\<rparr>)
     (env_at 1000000 ''9c0a5d6e-1b2c-4d3e-8f90-ab12cd34ef56'')
     (jane_payload ''09171234567'' [2] 50000) (Some ''203.0.113.7'') =
   \<lparr>out_result = Inl RateLimited, out_warnings = [],
    out_db = (shop_db 10)\<lparr>orders :=
        [example_order ''3f2b8c1e-7a4d-4e9b-9c0a-5d6e7f8091ab'' ''09179990000''
           (Some ''203.0.113.7'') 0]\<rparr>\<rparr>"
proof -
  let ?env = "env_at 1000000 ''9c0a5d6e-1b2c-4d3e-8f90-ab12cd34ef56''"
  let ?p = "jane_payload ''09171234567'' [2] 50000"
  let ?d = "(shop_db 10)\<lparr>orders :=
        [example_order ''3f2b8c1e-7a4d-4e9b-9c0a-5d6e7f8091ab'' ''09179990000''
           (Some ''203.0.113.7'') 0]\<rparr>"
  have gate: "prevent_spam_orders_per_ip (e_now ?env) (orders ?d)
      (new_order ?env ?p (Some ''203.0.113.7'')) = Some RateLimit"
    by code_simp
  have nofault: "\<not> e_orders_fault ?env"
    by (simp add: env_at_def)
  have stock: "insufficientItem ?d (stock_adjustments (p_items ?p)) = None"
    by code_simp
  from rate_limit_gate_in_insert [OF gate nofault]
  have "createOrder ?d ?env ?p (Some ''203.0.113.7'') =
     \<lparr>out_result = Inl RateLimited, out_warnings = [], out_db = ?d\<rparr>"
    unfolding stock by simp
  with gate nofault show ?thesis by simp
qed

subsection \<open>Order creation: a created order\<close>

lemma createOrder_Inr:
  assumes "out_result (createOrder d env payload clientIp) = Inr ord"
  shows "ord = new_order env payload clientIp"
    and "insufficientItem d (stock_adjustments (p_items payload)) = None"
    and "\<not> e_orders_fault env"
    and "prevent_spam_orders_per_ip (e_now env) (orders d) (new_order env payload clientIp) = None"
    and "o_id ord \<notin> set (map o_id (orders d))"
    and "\<not> e_items_fault env"
    and "list_all (\<lambda>ci. ci_quantity ci > 0) (p_items payload)"
    and "out_warnings (createOrder d env payload clientIp) =
           (if e_decrement_fault env then [StockDecrementWarning] else [])"
    and "out_db (createOrder d env payload clientIp) =
           d\<lparr>orders := orders d @ [ord],
             order_items := order_items d @ map (order_item_of ord) (p_items payload),
             menu_items := (if e_decrement_fault env then menu_items d
                            else decrement_menu_item_stock
                                   (stock_adjustments (p_items payload)) (menu_items d))\<rparr>"
proof -
  have stock: "insufficientItem d (stock_adjustments (p_items payload)) = None"
  proof (cases "insufficientItem d (stock_adjustments (p_items payload))")
    case None then show ?thesis .
  next
    case (Some row)
    from createOrder_insufficient [OF Some, of env clientIp] assms show ?thesis by simp
  qed
  note run = createOrder_stock_ok [OF stock, of env clientIp]
  from assms have branch:
    "\<not> e_orders_fault env \<and>
     prevent_spam_orders_per_ip (e_now env) (orders d) (new_order env payload clientIp) = None \<and>
     o_id (new_order env payload clientIp) \<notin> set (map o_id (orders d)) \<and>
     \<not> e_items_fault env \<and> list_all (\<lambda>ci. ci_quantity ci > 0) (p_items payload)"
    unfolding run by (auto simp: Let_def split: if_splits)
  from assms branch have ord: "ord = new_order env payload clientIp"
    unfolding run by (auto simp: Let_def split: if_splits)
  show "ord = new_order env payload clientIp" by (rule ord)
  show "insufficientItem d (stock_adjustments (p_items payload)) = None" by (rule stock)
  from branch show "\<not> e_orders_fault env" by simp
  from branch show "prevent_spam_orders_per_ip (e_now env) (orders d)
      (new_order env payload clientIp) = None" by simp
  from branch ord show "o_id ord \<notin> set (map o_id (orders d))" by simp
  from branch show "\<not> e_items_fault env" by simp
  from branch show "list_all (\<lambda>ci. ci_quantity ci > 0) (p_items payload)" by simp
  from branch show "out_warnings (createOrder d env payload clientIp) =
           (if e_decrement_fault env then [StockDecrementWarning] else [])"
    unfolding run by (simp add: Let_def)
  from branch ord show "out_db (createOrder d env payload clientIp) =
           d\<lparr>orders := orders d @ [ord],
             order_items := order_items d @ map (order_item_of ord) (p_items payload),
             menu_items := (if e_decrement_fault env then menu_items d
                            else decrement_menu_item_stock
                                   (stock_adjustments (p_items payload)) (menu_items d))\<rparr>"
    unfolding run by (simp add: Let_def)
qed

lemma sum_subtotals:
  "sum_list (map oi_subtotal (map (order_item_of ord) items)) =
     (\<Sum>ci\<leftarrow>items. ci_totalPrice ci * ci_quantity ci)"
  by (induction items) (simp_all add: order_item_of_fields)

text \<open>
  C8, amended. The total of a created order is the total the caller sent. Its line items
  are added to \<open>order_items\<close>, each with the order's id and with subtotal
  \<open>unit_price * quantity\<close>, and they are all the lines of the order when every earlier
  line belongs to an earlier order. The total equals the sum of the subtotals exactly
  when the caller's total equals the sum of \<open>totalPrice * quantity\<close> over the cart.
\<close>

theorem createOrder_total_is_callers:
  assumes "out_result (createOrder d env payload clientIp) = Inr ord"
  shows "o_total ord = p_total payload \<and>
         ord \<in> set (orders (out_db (createOrder d env payload clientIp))) \<and>
         order_items (out_db (createOrder d env payload clientIp)) =
           order_items d @ map (order_item_of ord) (p_items payload) \<and>
         list_all (\<lambda>r. oi_order_id r = o_id ord \<and> oi_subtotal r = oi_unit_price r * oi_quantity r)
           (map (order_item_of ord) (p_items payload)) \<and>
         ((o_total ord = sum_list (map oi_subtotal (map (order_item_of ord) (p_items payload)))) =
          (p_total payload = (\<Sum>ci\<leftarrow>p_items payload. ci_totalPrice ci * ci_quantity ci))) \<and>
         (list_all (\<lambda>r. oi_order_id r \<in> set (map o_id (orders d))) (order_items d) \<longrightarrow>
            filter (\<lambda>r. oi_order_id r = o_id ord)
              (order_items (out_db (createOrder d env payload clientIp)))
            = map (order_item_of ord) (p_items payload))"
proof -
  note facts = createOrder_Inr [OF assms]
  have total: "o_total ord = p_total payload"
    using facts(1) by (simp add: new_order_fields)
  have db: "out_db (createOrder d env payload clientIp) =
           d\<lparr>orders := orders d @ [ord],
             order_items := order_items d @ map (order_item_of ord) (p_items payload),
             menu_items := (if e_decrement_fault env then menu_items d
                            else decrement_menu_item_stock
                                   (stock_adjustments (p_items payload)) (menu_items d))\<rparr>"
    by (rule facts(9))
  have rows: "list_all (\<lambda>r. oi_order_id r = o_id ord \<and>
                oi_subtotal r = oi_unit_price r * oi_quantity r)
           (map (order_item_of ord) (p_items payload))"
    by (simp add: list_all_iff order_item_of_fields)
  have own: "filter (\<lambda>r. oi_order_id r = o_id ord) (map (order_item_of ord) (p_items payload))
             = map (order_item_of ord) (p_items payload)"
    by (simp add: filter_id_conv order_item_of_fields)
  have fk: "filter (\<lambda>r. oi_order_id r = o_id ord) (order_items d) = []"
    if "list_all (\<lambda>r. oi_order_id r \<in> set (map o_id (orders d))) (order_items d)"
  proof -
    have "oi_order_id r \<noteq> o_id ord" if "r \<in> set (order_items d)" for r
    proof -
      from that \<open>list_all _ (order_items d)\<close>
      have "oi_order_id r \<in> set (map o_id (orders d))" by (simp add: list_all_iff)
      with facts(5) show ?thesis by metis
    qed
    then show ?thesis by (simp add: filter_empty_conv)
  qed
  have inside: "ord \<in> set (orders (out_db (createOrder d env payload clientIp)))"
    unfolding db by simp
  have items: "order_items (out_db (createOrder d env payload clientIp)) =
           order_items d @ map (order_item_of ord) (p_items payload)"
    unfolding db by simp
  have eq: "(o_total ord = sum_list (map oi_subtotal (map (order_item_of ord) (p_items payload)))) =
          (p_total payload = (\<Sum>ci\<leftarrow>p_items payload. ci_totalPrice ci * ci_quantity ci))"
    unfolding sum_subtotals total ..
  have lines: "filter (\<lambda>r. oi_order_id r = o_id ord)
              (order_items (out_db (createOrder d env payload clientIp)))
            = map (order_item_of ord) (p_items payload)"
    if "list_all (\<lambda>r. oi_order_id r \<in> set (map o_id (orders d))) (order_items d)"
    unfolding items filter_append fk [OF that] own by simp
  from total inside items rows eq lines show ?thesis by blast
qed

theorem createOrder_total_is_callers_witness:
  "out_result (createOrder (shop_db 10) (env_at 1000000 ''3f2b8c1e-7a4d-4e9b-9c0a-5d6e7f8091ab'')
       (jane_payload ''09171234567'' [2] 50000) None)
     = Inr (example_order ''3f2b8c1e-7a4d-4e9b-9c0a-5d6e7f8091ab'' ''09171234567'' None 1000000) \<and>
   o_total (example_order ''3f2b8c1e-7a4d-4e9b-9c0a-5d6e7f8091ab'' ''09171234567'' None 1000000)
     = 50000 \<and>
   map oi_subtotal (filter (\<lambda>r. oi_order_id r = ''3f2b8c1e-7a4d-4e9b-9c0a-5d6e7f8091ab'')
     (order_items (out_db (createOrder (shop_db 10)
        (env_at 1000000 ''3f2b8c1e-7a4d-4e9b-9c0a-5d6e7f8091ab'')
        (jane_payload ''09171234567'' [2] 50000) None)))) = [50000]"
proof -
  let ?env = "env_at 1000000 ''3f2b8c1e-7a4d-4e9b-9c0a-5d6e7f8091ab''"
  let ?p = "jane_payload ''09171234567'' [2] 50000"
  let ?ord = "example_order ''3f2b8c1e-7a4d-4e9b-9c0a-5d6e7f8091ab'' ''09171234567'' None 1000000"
  have ok: "out_result (createOrder (shop_db 10) ?env ?p None) = Inr ?ord"
    by code_simp
  have fk: "list_all (\<lambda>r. oi_order_id r \<in> set (map o_id (orders (shop_db 10))))
              (order_items (shop_db 10))"
    by (simp add: shop_db_def)
  have oid: "o_id ?ord = ''3f2b8c1e-7a4d-4e9b-9c0a-5d6e7f8091ab''"
    by (simp add: example_order_def)
  from createOrder_total_is_callers [OF ok] fk
  have tot: "o_total ?ord = p_total ?p"
    and own: "filter (\<lambda>r. oi_order_id r = o_id ?ord)
        (order_items (out_db (createOrder (shop_db 10) ?env ?p None)))
        = map (order_item_of ?ord) (p_items ?p)"
    by blast+
  have "p_total ?p = 50000" by (simp add: jane_payload_def)
  with tot have t: "o_total ?ord = 50000" by simp
  have "map oi_subtotal (map (order_item_of ?ord) (p_items ?p)) = [50000]"
    by (simp add: jane_payload_def jane_item_def order_item_of_fields)
  with own oid have "map oi_subtotal (filter (\<lambda>r. oi_order_id r = ''3f2b8c1e-7a4d-4e9b-9c0a-5d6e7f8091ab'')
     (order_items (out_db (createOrder (shop_db 10) ?env ?p None)))) = [50000]"
    by simp
  with ok t show ?thesis by simp
qed

text \<open>
  C8, as stated, fails: the total is not checked against the cart. A cart of 2 at 250.00
  sent with a total of 1.00 is created with total 1.00 and one line of subtotal 500.00.
\<close>

theorem total_not_sum_counterexample:
  "out_result (createOrder (shop_db 10) (env_at 1000000 ''3f2b8c1e-7a4d-4e9b-9c0a-5d6e7f8091ab'')
       (jane_payload ''09171234567'' [2] 100) None)
     = Inr ((example_order ''3f2b8c1e-7a4d-4e9b-9c0a-5d6e7f8091ab'' ''09171234567'' None 1000000)
              \<lparr>o_total := 100\<rparr>) \<and>
   map oi_subtotal (filter (\<lambda>r. oi_order_id r = ''3f2b8c1e-7a4d-4e9b-9c0a-5d6e7f8091ab'')
     (order_items (out_db (createOrder (shop_db 10)
        (env_at 1000000 ''3f2b8c1e-7a4d-4e9b-9c0a-5d6e7f8091ab'')
        (jane_payload ''09171234567'' [2] 100) None)))) = [50000]"
  by code_simp

subsection \<open>Order creation: a failed stock decrement\<close>

lemma new_order_decrement_fault:
  "new_order (env\<lparr>e_decrement_fault := b\<rparr>) payload clientIp = new_order env payload clientIp"
  by (simp add: new_order_def)

text \<open>
  A storage fault of the decrement changes neither the result of a call nor what it
  leaves in \<open>orders\<close> and \<open>order_items\<close>; a call that fails is the same call with or
  without it.
\<close>

lemma decrement_fault_same_result:
  "(let ok = createOrder d (env\<lparr>e_decrement_fault := False\<rparr>) payload clientIp;
        ko = createOrder d (env\<lparr>e_decrement_fault := True\<rparr>) payload clientIp
    in out_result ko = out_result ok \<and>
       orders (out_db ko) = orders (out_db ok) \<and>
       order_items (out_db ko) = order_items (out_db ok) \<and>
       (case out_result ok of
          Inl e \<Rightarrow> ko = ok
        | Inr ord \<Rightarrow>
            out_warnings ko = [StockDecrementWarning] \<and>
            menu_items (out_db ko) = menu_items d \<and>
            ord \<in> set (orders (out_db ko)) \<and>
            set (map (order_item_of ord) (p_items payload)) \<subseteq> set (order_items (out_db ko))))"
proof (cases "insufficientItem d (stock_adjustments (p_items payload))")
  case (Some row)
  show ?thesis
    unfolding createOrder_insufficient [OF Some] by (simp add: Let_def)
next
  case None
  show ?thesis
    unfolding createOrder_stock_ok [OF None] new_order_decrement_fault
    by (simp add: Let_def)
qed

text \<open>
  C9. When the stock check passes, the header and the line items are inserted, and the
  stock decrement then fails, the call returns the order with the warning as the only
  trace of the failure: the order is in \<open>orders\<close> with its line items in
  \<open>order_items\<close>, the stock is as before the call, and the result, \<open>orders\<close> and
  \<open>order_items\<close> are those of the same call with a working decrement.
\<close>

theorem decrement_failure_keeps_order:
  assumes stock: "insufficientItem d (stock_adjustments (p_items payload)) = None"
    and header: "insert_orders env (new_order env payload clientIp) d = Inr (ord, d1)"
    and lines: "insert_order_items env (map (order_item_of ord) (p_items payload)) d1 = Inr d2"
    and fault: "e_decrement_fault env"
  shows "createOrder d env payload clientIp =
           \<lparr>out_result = Inr ord, out_warnings = [StockDecrementWarning], out_db = d2\<rparr> \<and>
         ord \<in> set (orders d2) \<and>
         set (map (order_item_of ord) (p_items payload)) \<subseteq> set (order_items d2) \<and>
         menu_items d2 = menu_items d \<and>
         out_result (createOrder d (env\<lparr>e_decrement_fault := False\<rparr>) payload clientIp)
           = Inr ord \<and>
         orders (out_db (createOrder d (env\<lparr>e_decrement_fault := False\<rparr>) payload clientIp))
           = orders d2 \<and>
         order_items (out_db (createOrder d (env\<lparr>e_decrement_fault := False\<rparr>) payload clientIp))
           = order_items d2"
proof -
  let ?NEW = "new_order env payload clientIp"
  from header have h: "\<not> e_orders_fault env"
    "prevent_spam_orders_per_ip (e_now env) (orders d) ?NEW = None"
    "o_id ?NEW \<notin> set (map o_id (orders d))" "ord = ?NEW"
    "d1 = d\<lparr>orders := orders d @ [?NEW]\<rparr>"
    by (simp_all add: insert_orders_Inr)
  from lines have l: "\<not> e_items_fault env"
    "list_all (\<lambda>ci. ci_quantity ci > 0) (p_items payload)"
    "d2 = d\<lparr>orders := orders d @ [?NEW],
             order_items := order_items d @ map (order_item_of ?NEW) (p_items payload)\<rparr>"
    unfolding h(4,5) insert_order_items_new by (simp_all split: if_splits)
  have run: "createOrder d env payload clientIp =
           \<lparr>out_result = Inr ord, out_warnings = [StockDecrementWarning], out_db = d2\<rparr>"
    using stock header lines fault by (simp add: createOrder_def Let_def)
  have ok: "createOrder d (env\<lparr>e_decrement_fault := False\<rparr>) payload clientIp =
      \<lparr>out_result = Inr ?NEW, out_warnings = [],
       out_db = d\<lparr>orders := orders d @ [?NEW],
                  order_items := order_items d @ map (order_item_of ?NEW) (p_items payload),
                  menu_items := decrement_menu_item_stock
                     (stock_adjustments (p_items payload)) (menu_items d)\<rparr>\<rparr>"
    unfolding createOrder_stock_ok [OF stock] new_order_decrement_fault
    using h l by (simp add: Let_def)
  show ?thesis
    unfolding run ok using h(4) l(3) by simp
qed

theorem decrement_failure_keeps_order_witness:
  "insufficientItem (shop_db 10)
     (stock_adjustments (p_items (jane_payload ''09171234567'' [2] 50000))) = None \<and>
   e_decrement_fault
     ((env_at 1000000 ''3f2b8c1e-7a4d-4e9b-9c0a-5d6e7f8091ab'')\<lparr>e_decrement_fault := True\<rparr>) \<and>
   createOrder (shop_db 10)
     ((env_at 1000000 ''3f2b8c1e-7a4d-4e9b-9c0a-5d6e7f8091ab'')\<lparr>e_decrement_fault := True\<rparr>)
     (jane_payload ''09171234567'' [2] 50000) None =
   \<lparr>out_result =
      Inr (example_order ''3f2b8c1e-7a4d-4e9b-9c0a-5d6e7f8091ab'' ''09171234567'' None 1000000),
    out_warnings = [StockDecrementWarning],
    out_db = (shop_db 10)\<lparr>orders :=
      [example_order ''3f2b8c1e-7a4d-4e9b-9c0a-5d6e7f8091ab'' ''09171234567'' None 1000000],
      order_items :=
        [order_item_of
           (example_order ''3f2b8c1e-7a4d-4e9b-9c0a-5d6e7f8091ab'' ''09171234567'' None 1000000)
           (jane_item 2)]\<rparr>\<rparr> \<and>
   out_result (createOrder (shop_db 10) (env_at 1000000 ''3f2b8c1e-7a4d-4e9b-9c0a-5d6e7f8091ab'')
     (jane_payload ''09171234567'' [2] 50000) None) =
     Inr (example_order ''3f2b8c1e-7a4d-4e9b-9c0a-5d6e7f8091ab'' ''09171234567'' None 1000000)"
proof -
  let ?env = "(env_at 1000000 ''3f2b8c1e-7a4d-4e9b-9c0a-5d6e7f8091ab'')\<lparr>e_decrement_fault := True\<rparr>"
  let ?p = "jane_payload ''09171234567'' [2] 50000"
  let ?ord = "example_order ''3f2b8c1e-7a4d-4e9b-9c0a-5d6e7f8091ab'' ''09171234567'' None 1000000"
  let ?d1 = "(shop_db 10)\<lparr>orders := [?ord]\<rparr>"
  let ?d2 = "(shop_db 10)\<lparr>orders := [?ord], order_items := [order_item_of ?ord (jane_item 2)]\<rparr>"
  have stock: "insufficientItem (shop_db 10) (stock_adjustments (p_items ?p)) = None"
    by code_simp
  have header: "insert_orders ?env (new_order ?env ?p None) (shop_db 10) = Inr (?ord, ?d1)"
    by code_simp
  have lines: "insert_order_items ?env (map (order_item_of ?ord) (p_items ?p)) ?d1 = Inr ?d2"
    by code_simp
  have fault: "e_decrement_fault ?env"
    by simp
  have env: "?env\<lparr>e_decrement_fault := False\<rparr> = env_at 1000000 ''3f2b8c1e-7a4d-4e9b-9c0a-5d6e7f8091ab''"
    by (simp add: env_at_def)
  from decrement_failure_keeps_order [OF stock header lines fault]
  have run: "createOrder (shop_db 10) ?env ?p None =
           \<lparr>out_result = Inr ?ord, out_warnings = [StockDecrementWarning], out_db = ?d2\<rparr>"
    and ok: "out_result (createOrder (shop_db 10) (?env\<lparr>e_decrement_fault := False\<rparr>) ?p None)
           = Inr ?ord"
    by blast+
  from stock fault run ok [unfolded env] show ?thesis by simp
qed

subsection \<open>Rate limiting\<close>

lemma count_pos: "x \<in> set xs \<Longrightarrow> P x \<Longrightarrow> 0 < length (filter P xs)"
  by (induction xs) auto

lemma trigger_raises_on_recent:
  assumes "ord \<in> set tbl"
    and "o_created_at ord \<ge> now - interval_60_seconds"
    and "(\<exists>a. o_ip_address ord = Some a \<and> o_ip_address NEW = Some a) \<or>
         (has_text (o_contact_number NEW) \<and> o_contact_number ord = o_contact_number NEW)"
  shows "prevent_spam_orders_per_ip now tbl NEW \<noteq> None"
proof -
  from assms(3) show ?thesis
  proof
    assume "\<exists>a. o_ip_address ord = Some a \<and> o_ip_address NEW = Some a"
    then have "sql_eq (o_ip_address ord) (o_ip_address NEW)"
      by (auto simp: sql_eq_def)
    with assms(1,2) have "0 < recent_count now tbl NEW"
      unfolding recent_count_def by (intro count_pos [of ord]) simp_all
    then show ?thesis by (simp add: prevent_spam_orders_per_ip_def)
  next
    assume c: "has_text (o_contact_number NEW) \<and> o_contact_number ord = o_contact_number NEW"
    then obtain s where "o_contact_number NEW = Some s"
      by (cases "o_contact_number NEW") (auto simp: has_text_def)
    with c have "sql_eq (o_contact_number ord) (o_contact_number NEW)"
      by (simp add: sql_eq_def)
    with assms(1,2) have "0 < length (filter (\<lambda>row. sql_eq (o_contact_number row) (o_contact_number NEW) \<and>
                               o_created_at row \<ge> now - interval_60_seconds) tbl)"
      by (intro count_pos [of ord]) simp_all
    with c have "0 < recent_phone_count now tbl NEW"
      unfolding recent_phone_count_def by simp
    then show ?thesis by (simp add: prevent_spam_orders_per_ip_def)
  qed
qed

lemma trigger_admits_after_cooldown:
  assumes "\<forall>row \<in> set tbl. o_created_at row < now - interval_60_seconds"
    and "has_text (o_ip_address NEW) \<or> has_text (o_contact_number NEW)"
  shows "prevent_spam_orders_per_ip now tbl NEW = None"
proof -
  have "filter (\<lambda>row. sql_eq (o_ip_address row) (o_ip_address NEW) \<and>
                  o_created_at row \<ge> now - interval_60_seconds) tbl = []"
    using assms(1) by (auto simp: filter_empty_conv)
  then have ip: "recent_count now tbl NEW = 0"
    by (simp add: recent_count_def)
  have "filter (\<lambda>row. sql_eq (o_contact_number row) (o_contact_number NEW) \<and>
                  o_created_at row \<ge> now - interval_60_seconds) tbl = []"
    using assms(1) by (auto simp: filter_empty_conv)
  then have ph: "recent_phone_count now tbl NEW = 0"
    by (simp add: recent_phone_count_def)
  from ip ph assms(2) show ?thesis
    by (auto simp: prevent_spam_orders_per_ip_def)
qed

lemma createOrder_rejected_by_trigger:
  assumes "prevent_spam_orders_per_ip (e_now env) (orders d) (new_order env payload clientIp) \<noteq> None"
  shows "(\<exists>e. out_result (createOrder d env payload clientIp) = Inl e) \<and>
         out_db (createOrder d env payload clientIp) = d \<and>
         (insufficientItem d (stock_adjustments (p_items payload)) = None \<and> \<not> e_orders_fault env \<longrightarrow>
            out_result (createOrder d env payload clientIp) = Inl RateLimited)"
proof (cases "insufficientItem d (stock_adjustments (p_items payload))")
  case (Some row)
  show ?thesis unfolding createOrder_insufficient [OF Some] using Some by simp
next
  case None
  show ?thesis unfolding createOrder_stock_ok [OF None] using assms None by (simp add: Let_def)
qed

lemma createOrder_admitted:
  assumes "submission_passes d env payload"
    and "prevent_spam_orders_per_ip (e_now env) (orders d) (new_order env payload clientIp) = None"
  shows "out_result (createOrder d env payload clientIp) = Inr (new_order env payload clientIp) \<and>
         orders (out_db (createOrder d env payload clientIp))
           = orders d @ [new_order env payload clientIp]"
proof -
  from assms(1) have stock: "insufficientItem d (stock_adjustments (p_items payload)) = None"
    and rest: "\<not> e_orders_fault env" "\<not> e_items_fault env"
      "e_new_id env \<notin> set (map o_id (orders d))"
      "list_all (\<lambda>ci. ci_quantity ci > 0) (p_items payload)"
    by (simp_all add: submission_passes_def)
  show ?thesis
    unfolding createOrder_stock_ok [OF stock] using assms(2) rest
    by (simp add: Let_def new_order_fields)
qed

text \<open>
  C4. After a submission that created an order, a second submission that comes with the
  same origin address, or with the same contact number (one that is not blank), no
  later than 60 seconds after the first creates no order and leaves the database as it
  is; its error is the rate limit error when its stock check passes and the insert
  meets no storage fault. A third submission more than 60 seconds after the first, with
  an identifier, whose stock check and validation pass, creates an order, provided the
  orders in the store before the first submission are not younger than it.
\<close>

theorem cooldown_window:
  assumes first: "out_result (createOrder d0 env1 p1 ip1) = Inr o1"
    and d1: "d1 = out_db (createOrder d0 env1 p1 ip1)"
    and same: "(\<exists>a. ip1 = Some a \<and> ip2 = Some a) \<or>
               (has_text (Some (p_contactNumber p2)) \<and> p_contactNumber p2 = p_contactNumber p1)"
    and within: "e_now env2 \<le> e_now env1 + interval_60_seconds"
  shows "(\<exists>e. out_result (createOrder d1 env2 p2 ip2) = Inl e) \<and>
         out_db (createOrder d1 env2 p2 ip2) = d1 \<and>
         (insufficientItem d1 (stock_adjustments (p_items p2)) = None \<and> \<not> e_orders_fault env2 \<longrightarrow>
            out_result (createOrder d1 env2 p2 ip2) = Inl RateLimited) \<and>
         ((\<forall>row \<in> set (orders d0). o_created_at row \<le> e_now env1) \<and>
          e_now env1 + interval_60_seconds < e_now env3 \<and>
          (has_text ip3 \<or> has_text (Some (p_contactNumber p3))) \<and>
          submission_passes d1 env3 p3 \<longrightarrow>
            (\<exists>o3. out_result (createOrder d1 env3 p3 ip3) = Inr o3 \<and>
                   orders (out_db (createOrder d1 env3 p3 ip3)) = orders d1 @ [o3]))"
proof -
  note facts = createOrder_Inr [OF first]
  have o1: "o1 = new_order env1 p1 ip1" by (rule facts(1))
  have orders1: "orders d1 = orders d0 @ [o1]"
    unfolding d1 facts(9) by simp
  have o1_fields: "o_created_at o1 = e_now env1" "o_ip_address o1 = ip1"
    "o_contact_number o1 = Some (p_contactNumber p1)"
    unfolding o1 by (simp_all add: new_order_fields)
  let ?NEW2 = "new_order env2 p2 ip2"
  have "prevent_spam_orders_per_ip (e_now env2) (orders d1) ?NEW2 \<noteq> None"
  proof (rule trigger_raises_on_recent [of o1])
    show "o1 \<in> set (orders d1)" by (simp add: orders1)
    show "e_now env2 - interval_60_seconds \<le> o_created_at o1"
      using within by (simp add: o1_fields)
    show "(\<exists>a. o_ip_address o1 = Some a \<and> o_ip_address ?NEW2 = Some a) \<or>
          has_text (o_contact_number ?NEW2) \<and> o_contact_number o1 = o_contact_number ?NEW2"
      using same by (auto simp: o1_fields new_order_fields)
  qed
  from createOrder_rejected_by_trigger [OF this]
  have second: "(\<exists>e. out_result (createOrder d1 env2 p2 ip2) = Inl e) \<and>
         out_db (createOrder d1 env2 p2 ip2) = d1 \<and>
         (insufficientItem d1 (stock_adjustments (p_items p2)) = None \<and> \<not> e_orders_fault env2 \<longrightarrow>
            out_result (createOrder d1 env2 p2 ip2) = Inl RateLimited)" .
  have third: "\<exists>o3. out_result (createOrder d1 env3 p3 ip3) = Inr o3 \<and>
                   orders (out_db (createOrder d1 env3 p3 ip3)) = orders d1 @ [o3]"
    if old: "\<forall>row \<in> set (orders d0). o_created_at row \<le> e_now env1"
      and after: "e_now env1 + interval_60_seconds < e_now env3"
      and ident: "has_text ip3 \<or> has_text (Some (p_contactNumber p3))"
      and pass: "submission_passes d1 env3 p3"
  proof -
    have "\<forall>row \<in> set (orders d1). o_created_at row < e_now env3 - interval_60_seconds"
      using old after by (auto simp: orders1 o1_fields)
    then have "prevent_spam_orders_per_ip (e_now env3) (orders d1) (new_order env3 p3 ip3) = None"
      using ident by (intro trigger_admits_after_cooldown) (simp_all add: new_order_fields)
    from createOrder_admitted [OF pass this] show ?thesis by blast
  qed
  from second third show ?thesis by blast
qed

theorem cooldown_window_witness:
  "out_result (createOrder (shop_db 10) (env_at 0 ''3f2b8c1e-7a4d-4e9b-9c0a-5d6e7f8091ab'')
      (jane_payload ''09171234567'' [2] 50000) None)
     = Inr (example_order ''3f2b8c1e-7a4d-4e9b-9c0a-5d6e7f8091ab'' ''09171234567'' None 0) \<and>
   has_text (Some ''09171234567'') \<and>
   e_now (env_at 60000000 ''9c0a5d6e-1b2c-4d3e-8f90-ab12cd34ef56'')
     \<le> e_now (env_at 0 ''3f2b8c1e-7a4d-4e9b-9c0a-5d6e7f8091ab'') + interval_60_seconds \<and>
   out_result (createOrder
      (out_db (createOrder (shop_db 10) (env_at 0 ''3f2b8c1e-7a4d-4e9b-9c0a-5d6e7f8091ab'')
         (jane_payload ''09171234567'' [2] 50000) None))
      (env_at 60000000 ''9c0a5d6e-1b2c-4d3e-8f90-ab12cd34ef56'')
      (jane_payload ''09171234567'' [1] 25000) None) = Inl RateLimited \<and>
   out_db (createOrder
      (out_db (createOrder (shop_db 10) (env_at 0 ''3f2b8c1e-7a4d-4e9b-9c0a-5d6e7f8091ab'')
         (jane_payload ''09171234567'' [2] 50000) None))
      (env_at 60000000 ''9c0a5d6e-1b2c-4d3e-8f90-ab12cd34ef56'')
      (jane_payload ''09171234567'' [1] 25000) None)
     = out_db (createOrder (shop_db 10) (env_at 0 ''3f2b8c1e-7a4d-4e9b-9c0a-5d6e7f8091ab'')
         (jane_payload ''09171234567'' [2] 50000) None) \<and>
   (\<exists>o3. out_result (createOrder
      (out_db (createOrder (shop_db 10) (env_at 0 ''3f2b8c1e-7a4d-4e9b-9c0a-5d6e7f8091ab'')
         (jane_payload ''09171234567'' [2] 50000) None))
      (env_at 60000001 ''0ab12f00-5e6f-4a7b-8c9d-0e1f2a3b4c5d'')
      (jane_payload ''09171234567'' [1] 25000) None) = Inr o3)"
proof -
  let ?env1 = "env_at 0 ''3f2b8c1e-7a4d-4e9b-9c0a-5d6e7f8091ab''"
  let ?env2 = "env_at 60000000 ''9c0a5d6e-1b2c-4d3e-8f90-ab12cd34ef56''"
  let ?env3 = "env_at 60000001 ''0ab12f00-5e6f-4a7b-8c9d-0e1f2a3b4c5d''"
  let ?p1 = "jane_payload ''09171234567'' [2] 50000"
  let ?p2 = "jane_payload ''09171234567'' [1] 25000"
  let ?o1 = "example_order ''3f2b8c1e-7a4d-4e9b-9c0a-5d6e7f8091ab'' ''09171234567'' None 0"
  let ?d1 = "out_db (createOrder (shop_db 10) ?env1 ?p1 None)"
  have first: "out_result (createOrder (shop_db 10) ?env1 ?p1 None) = Inr ?o1"
    by code_simp
  have contact: "has_text (Some ''09171234567'')"
    by code_simp
  have same: "(\<exists>a. (None :: string option) = Some a \<and> (None :: string option) = Some a) \<or>
      (has_text (Some (p_contactNumber ?p2)) \<and> p_contactNumber ?p2 = p_contactNumber ?p1)"
    using contact by (simp add: jane_payload_def)
  have within: "e_now ?env2 \<le> e_now ?env1 + interval_60_seconds"
    by (simp add: env_at_def interval_60_seconds_def)
  have stock2: "insufficientItem ?d1 (stock_adjustments (p_items ?p2)) = None \<and>
      \<not> e_orders_fault ?env2"
    by code_simp
  have old: "\<forall>row \<in> set (orders (shop_db 10)). o_created_at row \<le> e_now ?env1"
    by (simp add: shop_db_def)
  have after: "e_now ?env1 + interval_60_seconds < e_now ?env3"
    by (simp add: env_at_def interval_60_seconds_def)
  have ident: "has_text (None :: string option) \<or> has_text (Some (p_contactNumber ?p2))"
    using contact by (simp add: jane_payload_def)
  have pass: "submission_passes ?d1 ?env3 ?p2"
    by code_simp
  note inst = cooldown_window [OF first refl same within,
      where ?p3.0 = ?p2 and ?env3.0 = ?env3 and ?ip3.0 = None]
  from inst stock2 have second: "out_result (createOrder ?d1 ?env2 ?p2 None) = Inl RateLimited"
    and kept: "out_db (createOrder ?d1 ?env2 ?p2 None) = ?d1"
    by blast+
  from inst old after ident pass
  have third: "\<exists>o3. out_result (createOrder ?d1 ?env3 ?p2 None) = Inr o3"
    by blast
  from first contact within second kept third show ?thesis by blast
qed

end
